theory Spec2Isabelle
  imports Complex_Main
begin

section \<open>Values, exceptions and the platform\<close>

text \<open>
  The two pages (\<^verbatim>\<open>part_000\<close>, the SSR page, and \<^verbatim>\<open>part_001\<close>, the ISR page) are
  TypeScript. What the platform hands to them is modelled as data:

  \<^item> a JavaScript value as it comes out of \<^verbatim>\<open>response.json()\<close> or of a property read.
    A number is given by its value (a finite double is a rational); strings are
    \<^typ>\<open>string\<close>; an object is the list of its own properties.
  \<^item> a thrown value: either an instance of \<^verbatim>\<open>Error\<close> with its \<^verbatim>\<open>message\<close>, or any
    other value, given by what \<^verbatim>\<open>String(value)\<close> returns for it.
\<close>

datatype jsval =
    JUndefined
  | JNull
  | JBool bool
  | JNum rat
  | JStr string
  | JArr "jsval list"
  | JObj "(string \<times> jsval) list"

datatype thrown =
    ErrorInstance string
  | NonError string

text \<open>\<^verbatim>\<open>error instanceof Error ? error.message : String(error)\<close>, the expression of
  every catch block.\<close>

definition error_text :: "thrown \<Rightarrow> string" where
  "error_text err = (case err of ErrorInstance message \<Rightarrow> message | NonError s \<Rightarrow> s)"

text \<open>JavaScript truthiness, as \<^verbatim>\<open>||\<close> and \<^verbatim>\<open>&&\<close> test it.\<close>

definition truthy :: "jsval \<Rightarrow> bool" where
  "truthy v = (case v of
      JUndefined \<Rightarrow> False
    | JNull \<Rightarrow> False
    | JBool b \<Rightarrow> b
    | JNum n \<Rightarrow> n \<noteq> 0
    | JStr s \<Rightarrow> s \<noteq> []
    | JArr _ \<Rightarrow> True
    | JObj _ \<Rightarrow> True)"

text \<open>
  A property read \<^verbatim>\<open>v.k\<close>. Reading a property of \<^verbatim>\<open>null\<close> or \<^verbatim>\<open>undefined\<close> throws a
  TypeError (the message is V8's). An object yields its own property or \<^verbatim>\<open>undefined\<close>;
  the names the pages read (\<^verbatim>\<open>json\<close>, \<^verbatim>\<open>test\<close>, \<^verbatim>\<open>uuid\<close>, \<^verbatim>\<open>origin\<close>) are on no
  prototype, so every other value yields \<^verbatim>\<open>undefined\<close>.
\<close>

definition quoted :: "string \<Rightarrow> string" where
  "quoted k = [CHR 0x27] @ k @ [CHR 0x27]"

definition get_prop :: "jsval \<Rightarrow> string \<Rightarrow> thrown + jsval" where
  "get_prop v k = (case v of
      JUndefined \<Rightarrow>
        Inl (ErrorInstance (''Cannot read properties of undefined (reading '' @ quoted k @ '')''))
    | JNull \<Rightarrow>
        Inl (ErrorInstance (''Cannot read properties of null (reading '' @ quoted k @ '')''))
    | JObj props \<Rightarrow> Inr (case map_of props k of Some x \<Rightarrow> x | None \<Rightarrow> JUndefined)
    | _ \<Rightarrow> Inr JUndefined)"

text \<open>Optional chaining \<^verbatim>\<open>v?.k\<close>.\<close>

definition opt_prop :: "jsval \<Rightarrow> string \<Rightarrow> thrown + jsval" where
  "opt_prop v k = (if v = JUndefined \<or> v = JNull then Inr JUndefined else get_prop v k)"

text \<open>\<^verbatim>\<open>h || d\<close> for the result \<^verbatim>\<open>h\<close> of \<^verbatim>\<open>headers.get\<close> (a string or \<^verbatim>\<open>null\<close>): the empty
  string is falsy as well.\<close>

definition or_str :: "string option \<Rightarrow> string \<Rightarrow> string" where
  "or_str h d = (case h of None \<Rightarrow> d | Some v \<Rightarrow> if v = [] then d else v)"

text \<open>The decimal digits of a status code, as a template literal prints it.\<close>

fun show_nat :: "nat \<Rightarrow> string" where
  "show_nat n =
     (if n < 10 then [''0123456789'' ! n]
      else show_nat (n div 10) @ [''0123456789'' ! (n mod 10)])"

declare show_nat.simps [simp del]

text \<open>
  Two built-ins format values and are taken as parameters: \<^verbatim>\<open>JSON.stringify\<close> (total on
  what \<^verbatim>\<open>response.json()\<close> returns) and the string conversion of a template literal
  \<^verbatim>\<open>`${v}`\<close>, which throws a TypeError on an object that cannot be converted.
\<close>

record platform =
  JSON_stringify :: "jsval \<Rightarrow> string"
  ToString :: "jsval \<Rightarrow> thrown + string"

section \<open>Requests and responses\<close>

text \<open>The arguments of one \<^verbatim>\<open>fetch(url, init)\<close>; an absent member of \<^verbatim>\<open>init\<close> is
  \<^const>\<open>None\<close> (or the empty header list).\<close>

record request =
  req_url :: string
  req_method :: "string option"
  req_headers :: "(string \<times> string) list"
  req_body :: "string option"
  req_cache :: "string option"
  req_next_revalidate :: "nat option"

text \<open>What the pages read of a \<^verbatim>\<open>Response\<close>: \<^verbatim>\<open>ok\<close>, \<^verbatim>\<open>status\<close>,
  \<^verbatim>\<open>headers.get('oe-proxy-used')\<close> and the outcome of \<^verbatim>\<open>await response.json()\<close>. The
  pages read \<^verbatim>\<open>ok\<close> and \<^verbatim>\<open>status\<close> separately, so both are fields; the platform sets
  \<^verbatim>\<open>ok\<close> exactly for a status from 200 to 299, and nothing below depends on that.\<close>

record response =
  resp_ok :: bool
  resp_status :: nat
  resp_oe_proxy_used :: "string option"
  resp_json :: "thrown + jsval"

text \<open>The network answers each request by throwing or by a response.\<close>

type_synonym network = "request \<Rightarrow> thrown + response"

section \<open>Result records\<close>

record FetchTestResult =
  test :: string
  status :: string
  statusCode :: "nat option"
  proxyUsed :: "string option"
  error :: "string option"
  data :: "jsval option"

record ISRFetchTestResult = FetchTestResult +
  cacheInfo :: "string option"

record 'r Results =
  fetchTests :: "'r list"

record SSRResults = "FetchTestResult Results" +
  requestTime :: string
  serverTime :: string
  dataFetchTime :: string
  realtimeValue :: int
  timestamp :: int
  serverHash :: string

record ISRResults = "ISRFetchTestResult Results" +
  buildTime :: string
  cacheStatus :: string

text \<open>The readings of the clock and of the random generator, in the order the SSR page
  takes them; \<^verbatim>\<open>post_now\<close> is the \<^verbatim>\<open>Date.now()\<close> of the POST body.\<close>

record ssr_ambient =
  iso_requestTime :: string
  iso_serverTime :: string
  iso_dataFetchTime :: string
  random_floor :: int
  date_now :: int
  random_hash :: string
  post_now :: int

section \<open>Sequential code with exceptions\<close>

text \<open>
  A statement runs on a state and either completes with a value or throws; what it did
  to the state before throwing stays done. The state holds the \<^verbatim>\<open>results\<close> object of the
  data function and the requests sent so far, in order.
\<close>

record 'res state =
  sent :: "request list"
  results :: 'res

type_synonym ('res, 'a) prog = "'res state \<Rightarrow> (thrown + 'a) \<times> 'res state"

definition bind_p :: "('res, 'a) prog \<Rightarrow> ('a \<Rightarrow> ('res, 'b) prog) \<Rightarrow> ('res, 'b) prog" where
  "bind_p m f = (\<lambda>s. case m s of
      (Inl e, s') \<Rightarrow> (Inl e, s')
    | (Inr x, s') \<Rightarrow> f x s')"

definition seq_p :: "('res, unit) prog \<Rightarrow> ('res, 'b) prog \<Rightarrow> ('res, 'b) prog" where
  "seq_p m n = bind_p m (\<lambda>_. n)"

definition try_catch :: "('res, 'a) prog \<Rightarrow> (thrown \<Rightarrow> ('res, 'a) prog) \<Rightarrow> ('res, 'a) prog" where
  "try_catch m h = (\<lambda>s. case m s of
      (Inl e, s') \<Rightarrow> h e s'
    | (Inr x, s') \<Rightarrow> (Inr x, s'))"

text \<open>The evaluation of an expression that may throw.\<close>

definition attempt :: "thrown + 'a \<Rightarrow> ('res, 'a) prog" where
  "attempt r = (\<lambda>s. (r, s))"

text \<open>\<^verbatim>\<open>await fetch(url, init)\<close>: the request goes out, the network decides.\<close>

definition fetch :: "network \<Rightarrow> request \<Rightarrow> ('res, response) prog" where
  "fetch net req = (\<lambda>s. (net req, s\<lparr>sent := sent s @ [req]\<rparr>))"

text \<open>\<^verbatim>\<open>results.fetchTests.push(r)\<close>.\<close>

definition push :: "'r \<Rightarrow> (('r, 'z) Results_scheme, unit) prog" where
  "push r = (\<lambda>s. (Inr (), s\<lparr>results := (results s)\<lparr>fetchTests := fetchTests (results s) @ [r]\<rparr>\<rparr>))"

text \<open>\<^verbatim>\<open>return results\<close>.\<close>

definition return_results :: "('res, 'res) prog" where
  "return_results = (\<lambda>s. (Inr (results s), s))"

section \<open>The SSR page: \<^verbatim>\<open>getSSRData\<close>\<close>

text \<open>Test 1: Normal successful fetch.\<close>

definition ssr_request1 :: request where
  "ssr_request1 = \<lparr>req_url = ''https://httpbin.org/json'', req_method = Some ''GET'',
     req_headers = [(''User-Agent'', ''NextJS-SSR-Test'')],
     req_body = None, req_cache = None, req_next_revalidate = None\<rparr>"

definition ssr_try1 :: "platform \<Rightarrow> network \<Rightarrow> (SSRResults, unit) prog" where
  "ssr_try1 pf net =
     bind_p (fetch net ssr_request1) (\<lambda>response.
       if resp_ok response then
         bind_p (attempt (resp_json response)) (\<lambda>dat.
           push \<lparr>test = ''Normal Fetch'', status = ''SUCCESS'',
            statusCode = Some (resp_status response),
            proxyUsed = Some (or_str (resp_oe_proxy_used response) ''unknown''),
            error = None,
            data = Some (JStr (take 100 (JSON_stringify pf dat) @ ''...''))\<rparr>)
       else
         push \<lparr>test = ''Normal Fetch'', status = ''HTTP_ERROR'',
          statusCode = Some (resp_status response),
          proxyUsed = None,
          error = Some (''HTTP '' @ show_nat (resp_status response)),
          data = None\<rparr>)"

definition ssr_catch1 :: "thrown \<Rightarrow> (SSRResults, unit) prog" where
  "ssr_catch1 err =
     push \<lparr>test = ''Normal Fetch'', status = ''NETWORK_ERROR'',
          statusCode = None,
          proxyUsed = None,
          error = Some (error_text err),
          data = None\<rparr>"

definition ssr_test1 :: "platform \<Rightarrow> network \<Rightarrow> (SSRResults, unit) prog" where
  "ssr_test1 pf net = try_catch (ssr_try1 pf net) ssr_catch1"

text \<open>Test 2: Fetch with timeout.\<close>

definition ssr_request2 :: request where
  "ssr_request2 = \<lparr>req_url = ''https://httpbin.org/delay/2'', req_method = Some ''GET'',
     req_headers = [(''User-Agent'', ''NextJS-SSR-Timeout-Test'')],
     req_body = None, req_cache = None, req_next_revalidate = None\<rparr>"

definition ssr_try2 :: "network \<Rightarrow> (SSRResults, unit) prog" where
  "ssr_try2 net =
     bind_p (fetch net ssr_request2) (\<lambda>response.
       if resp_ok response then
         bind_p (attempt (resp_json response)) (\<lambda>_.
           push \<lparr>test = ''Timeout Test'', status = ''SUCCESS'',
            statusCode = Some (resp_status response),
            proxyUsed = Some (or_str (resp_oe_proxy_used response) ''likely_proxy''),
            error = None,
            data = Some (JStr ''Delayed response received'')\<rparr>)
       else
         push \<lparr>test = ''Timeout Test'', status = ''HTTP_ERROR'',
          statusCode = Some (resp_status response),
          proxyUsed = None,
          error = Some (''HTTP '' @ show_nat (resp_status response)),
          data = None\<rparr>)"

definition ssr_catch2 :: "thrown \<Rightarrow> (SSRResults, unit) prog" where
  "ssr_catch2 err =
     push \<lparr>test = ''Timeout Test'', status = ''NETWORK_ERROR'',
          statusCode = None,
          proxyUsed = Some ''likely_proxy'',
          error = Some (error_text err),
          data = None\<rparr>"

definition ssr_test2 :: "network \<Rightarrow> (SSRResults, unit) prog" where
  "ssr_test2 net = try_catch (ssr_try2 net) ssr_catch2"

text \<open>Test 3: Fetch to a non-existent domain. There is no test of \<^verbatim>\<open>response.ok\<close> and
  no body read: any response at all is an unexpected success.\<close>

definition ssr_request3 :: request where
  "ssr_request3 = \<lparr>req_url = ''https://non-existent-domain-12345.com/api/test'',
     req_method = Some ''GET'', req_headers = [],
     req_body = None, req_cache = None, req_next_revalidate = None\<rparr>"

definition ssr_try3 :: "network \<Rightarrow> (SSRResults, unit) prog" where
  "ssr_try3 net =
     bind_p (fetch net ssr_request3) (\<lambda>response.
       push \<lparr>test = ''Non-existent Domain'', status = ''UNEXPECTED_SUCCESS'',
          statusCode = Some (resp_status response),
          proxyUsed = Some ''definitely_proxy'',
          error = None,
          data = None\<rparr>)"

definition ssr_catch3 :: "thrown \<Rightarrow> (SSRResults, unit) prog" where
  "ssr_catch3 err =
     push \<lparr>test = ''Non-existent Domain'', status = ''EXPECTED_ERROR'',
          statusCode = None,
          proxyUsed = Some ''proxy_attempted'',
          error = Some (error_text err),
          data = None\<rparr>"

definition ssr_test3 :: "network \<Rightarrow> (SSRResults, unit) prog" where
  "ssr_test3 net = try_catch (ssr_try3 net) ssr_catch3"

text \<open>Test 4: POST request with body. The preview is
  \<^verbatim>\<open>`Received: ${responseData.json?.test || 'POST data'}`\<close>.\<close>

definition ssr_request4 :: "ssr_ambient \<Rightarrow> platform \<Rightarrow> request" where
  "ssr_request4 amb pf = \<lparr>req_url = ''https://httpbin.org/post'', req_method = Some ''POST'',
     req_headers = [(''Content-Type'', ''application/json''),
                    (''User-Agent'', ''NextJS-SSR-POST-Test'')],
     req_body = Some (JSON_stringify pf (JObj
       [(''test'', JStr ''SSR Fetch Proxy Test''),
        (''timestamp'', JNum (of_int (post_now amb))),
        (''source'', JStr ''NextJS SSR Page'')])),
     req_cache = None, req_next_revalidate = None\<rparr>"

definition ssr_try4 :: "ssr_ambient \<Rightarrow> platform \<Rightarrow> network \<Rightarrow> (SSRResults, unit) prog" where
  "ssr_try4 amb pf net =
     bind_p (fetch net (ssr_request4 amb pf)) (\<lambda>response.
       if resp_ok response then
         bind_p (attempt (resp_json response)) (\<lambda>responseData.
         bind_p (attempt (get_prop responseData ''json'')) (\<lambda>json.
         bind_p (attempt (opt_prop json ''test'')) (\<lambda>t.
         bind_p (attempt (ToString pf (if truthy t then t else JStr ''POST data''))) (\<lambda>shown.
           push \<lparr>test = ''POST Request'', status = ''SUCCESS'',
            statusCode = Some (resp_status response),
            proxyUsed = Some (or_str (resp_oe_proxy_used response) ''unknown''),
            error = None,
            data = Some (JStr (''Received: '' @ shown))\<rparr>))))
       else
         push \<lparr>test = ''POST Request'', status = ''HTTP_ERROR'',
          statusCode = Some (resp_status response),
          proxyUsed = None,
          error = Some (''HTTP '' @ show_nat (resp_status response)),
          data = None\<rparr>)"

definition ssr_catch4 :: "thrown \<Rightarrow> (SSRResults, unit) prog" where
  "ssr_catch4 err =
     push \<lparr>test = ''POST Request'', status = ''NETWORK_ERROR'',
          statusCode = None,
          proxyUsed = None,
          error = Some (error_text err),
          data = None\<rparr>"

definition ssr_test4 :: "ssr_ambient \<Rightarrow> platform \<Rightarrow> network \<Rightarrow> (SSRResults, unit) prog" where
  "ssr_test4 amb pf net = try_catch (ssr_try4 amb pf net) ssr_catch4"

text \<open>The data function: \<^verbatim>\<open>results\<close> is created with an empty \<^verbatim>\<open>fetchTests\<close>, the four
  test cases run one after the other, \<^verbatim>\<open>results\<close> is returned.\<close>

definition ssr_initial :: "ssr_ambient \<Rightarrow> SSRResults state" where
  "ssr_initial amb = \<lparr>sent = [],
     results = \<lparr>fetchTests = [],
       requestTime = iso_requestTime amb,
       serverTime = iso_serverTime amb,
       dataFetchTime = iso_dataFetchTime amb,
       realtimeValue = random_floor amb,
       timestamp = date_now amb,
       serverHash = random_hash amb\<rparr>\<rparr>"

definition getSSRData_body :: "ssr_ambient \<Rightarrow> platform \<Rightarrow> network \<Rightarrow> (SSRResults, SSRResults) prog" where
  "getSSRData_body amb pf net =
     seq_p (ssr_test1 pf net)
    (seq_p (ssr_test2 net)
    (seq_p (ssr_test3 net)
    (seq_p (ssr_test4 amb pf net)
     return_results)))"

definition getSSRData :: "ssr_ambient \<Rightarrow> platform \<Rightarrow> network \<Rightarrow> (thrown + SSRResults) \<times> SSRResults state" where
  "getSSRData amb pf net = getSSRData_body amb pf net (ssr_initial amb)"

section \<open>The ISR page: \<^verbatim>\<open>getISRData\<close>\<close>

text \<open>Test 1: Cached fetch with ISR.\<close>

definition isr_request1 :: request where
  "isr_request1 = \<lparr>req_url = ''https://httpbin.org/uuid'', req_method = None,
     req_headers = [], req_body = None, req_cache = None, req_next_revalidate = Some 10\<rparr>"

definition isr_try1 :: "platform \<Rightarrow> network \<Rightarrow> (ISRResults, unit) prog" where
  "isr_try1 pf net =
     bind_p (fetch net isr_request1) (\<lambda>response.
       if resp_ok response then
         bind_p (attempt (resp_json response)) (\<lambda>responseData.
         bind_p (attempt (get_prop responseData ''uuid'')) (\<lambda>uuid.
           push \<lparr>test = ''ISR Cached Fetch'', status = ''SUCCESS'',
            statusCode = Some (resp_status response),
            proxyUsed = Some (or_str (resp_oe_proxy_used response) ''unknown''),
            error = None,
            data = Some uuid,
            cacheInfo = Some ''Cached with ISR revalidation''\<rparr>))
       else
         push \<lparr>test = ''ISR Cached Fetch'', status = ''HTTP_ERROR'',
          statusCode = Some (resp_status response),
          proxyUsed = None,
          error = Some (''HTTP '' @ show_nat (resp_status response)),
          data = None,
          cacheInfo = None\<rparr>)"

definition isr_catch1 :: "thrown \<Rightarrow> (ISRResults, unit) prog" where
  "isr_catch1 err =
     push \<lparr>test = ''ISR Cached Fetch'', status = ''NETWORK_ERROR'',
          statusCode = None,
          proxyUsed = Some ''likely_proxy'',
          error = Some (error_text err),
          data = None,
          cacheInfo = None\<rparr>"

definition isr_test1 :: "platform \<Rightarrow> network \<Rightarrow> (ISRResults, unit) prog" where
  "isr_test1 pf net = try_catch (isr_try1 pf net) isr_catch1"

text \<open>Test 2: No-cache fetch.\<close>

definition isr_request2 :: request where
  "isr_request2 = \<lparr>req_url = ''https://httpbin.org/ip'', req_method = None,
     req_headers = [], req_body = None, req_cache = Some ''no-store'',
     req_next_revalidate = None\<rparr>"

definition isr_try2 :: "platform \<Rightarrow> network \<Rightarrow> (ISRResults, unit) prog" where
  "isr_try2 pf net =
     bind_p (fetch net isr_request2) (\<lambda>response.
       if resp_ok response then
         bind_p (attempt (resp_json response)) (\<lambda>responseData.
         bind_p (attempt (get_prop responseData ''origin'')) (\<lambda>origin.
           push \<lparr>test = ''No-Cache Fetch'', status = ''SUCCESS'',
            statusCode = Some (resp_status response),
            proxyUsed = Some (or_str (resp_oe_proxy_used response) ''unknown''),
            error = None,
            data = Some origin,
            cacheInfo = Some ''No cache - fresh request''\<rparr>))
       else
         push \<lparr>test = ''No-Cache Fetch'', status = ''HTTP_ERROR'',
          statusCode = Some (resp_status response),
          proxyUsed = None,
          error = Some (''HTTP '' @ show_nat (resp_status response)),
          data = None,
          cacheInfo = None\<rparr>)"

definition isr_catch2 :: "thrown \<Rightarrow> (ISRResults, unit) prog" where
  "isr_catch2 err =
     push \<lparr>test = ''No-Cache Fetch'', status = ''NETWORK_ERROR'',
          statusCode = None,
          proxyUsed = Some ''likely_proxy'',
          error = Some (error_text err),
          data = None,
          cacheInfo = None\<rparr>"

definition isr_test2 :: "platform \<Rightarrow> network \<Rightarrow> (ISRResults, unit) prog" where
  "isr_test2 pf net = try_catch (isr_try2 pf net) isr_catch2"

text \<open>Test 3: Slow endpoint.\<close>

definition isr_request3 :: request where
  "isr_request3 = \<lparr>req_url = ''https://httpbin.org/delay/1'', req_method = None,
     req_headers = [], req_body = None, req_cache = None, req_next_revalidate = Some 10\<rparr>"

definition isr_try3 :: "network \<Rightarrow> (ISRResults, unit) prog" where
  "isr_try3 net =
     bind_p (fetch net isr_request3) (\<lambda>response.
       if resp_ok response then
         bind_p (attempt (resp_json response)) (\<lambda>_.
           push \<lparr>test = ''Slow Endpoint'', status = ''SUCCESS'',
            statusCode = Some (resp_status response),
            proxyUsed = Some (or_str (resp_oe_proxy_used response) ''likely_proxy''),
            error = None,
            data = Some (JStr ''Delayed response received''),
            cacheInfo = Some ''Cached after successful proxy request''\<rparr>)
       else
         push \<lparr>test = ''Slow Endpoint'', status = ''HTTP_ERROR'',
          statusCode = Some (resp_status response),
          proxyUsed = None,
          error = Some (''HTTP '' @ show_nat (resp_status response)),
          data = None,
          cacheInfo = None\<rparr>)"

definition isr_catch3 :: "thrown \<Rightarrow> (ISRResults, unit) prog" where
  "isr_catch3 err =
     push \<lparr>test = ''Slow Endpoint'', status = ''NETWORK_ERROR'',
          statusCode = None,
          proxyUsed = Some ''proxy_attempted'',
          error = Some (error_text err),
          data = None,
          cacheInfo = None\<rparr>"

definition isr_test3 :: "network \<Rightarrow> (ISRResults, unit) prog" where
  "isr_test3 net = try_catch (isr_try3 net) isr_catch3"

text \<open>Test 4: Error endpoint. There is no test of \<^verbatim>\<open>response.ok\<close> and no body read: any
  response at all is recorded as an HTTP error.\<close>

definition isr_request4 :: request where
  "isr_request4 = \<lparr>req_url = ''https://httpbin.org/status/500'', req_method = None,
     req_headers = [], req_body = None, req_cache = None, req_next_revalidate = Some 5\<rparr>"

definition isr_try4 :: "network \<Rightarrow> (ISRResults, unit) prog" where
  "isr_try4 net =
     bind_p (fetch net isr_request4) (\<lambda>response.
       push \<lparr>test = ''Error Endpoint'', status = ''HTTP_ERROR'',
          statusCode = Some (resp_status response),
          proxyUsed = Some (or_str (resp_oe_proxy_used response) ''unknown''),
          error = Some (''Server returned '' @ show_nat (resp_status response)),
          data = None,
          cacheInfo = Some ''Error responses may not be cached''\<rparr>)"

definition isr_catch4 :: "thrown \<Rightarrow> (ISRResults, unit) prog" where
  "isr_catch4 err =
     push \<lparr>test = ''Error Endpoint'', status = ''NETWORK_ERROR'',
          statusCode = None,
          proxyUsed = Some ''proxy_attempted'',
          error = Some (error_text err),
          data = None,
          cacheInfo = None\<rparr>"

definition isr_test4 :: "network \<Rightarrow> (ISRResults, unit) prog" where
  "isr_test4 net = try_catch (isr_try4 net) isr_catch4"

definition isr_initial :: "string \<Rightarrow> ISRResults state" where
  "isr_initial iso_buildTime = \<lparr>sent = [],
     results = \<lparr>fetchTests = [],
       buildTime = iso_buildTime,
       cacheStatus = ''cached for 10 seconds''\<rparr>\<rparr>"

definition getISRData_body :: "platform \<Rightarrow> network \<Rightarrow> (ISRResults, ISRResults) prog" where
  "getISRData_body pf net =
     seq_p (isr_test1 pf net)
    (seq_p (isr_test2 pf net)
    (seq_p (isr_test3 net)
    (seq_p (isr_test4 net)
     return_results)))"

definition getISRData :: "string \<Rightarrow> platform \<Rightarrow> network \<Rightarrow> (thrown + ISRResults) \<times> ISRResults state" where
  "getISRData iso_buildTime pf net = getISRData_body pf net (isr_initial iso_buildTime)"

section \<open>The page components\<close>

text \<open>
  A page component returns a tree of elements. A JSX element is a node: a host element
  with its tag, class name and children, or a use of one of the layout components
  (\<^verbatim>\<open>PageLayout\<close>, \<^verbatim>\<open>DemoLayout\<close>, \<^verbatim>\<open>DataDisplay\<close>, imported from elsewhere) with its
  props and children. \<^verbatim>\<open>Text\<close> is literal text of the markup, \<^verbatim>\<open>Value\<close> a child written
  \<^verbatim>\<open>{expression}\<close>, \<^verbatim>\<open>Keyed\<close> carries the \<^verbatim>\<open>key\<close> of a list item.
\<close>

datatype node =
    Text string
  | Value jsval
  | Keyed nat node
  | Element string string "node list"
  | Component string "(string \<times> jsx_prop) list" "node list"
and jsx_prop =
    PString string
  | PNode node
  | PRows "(string \<times> jsval \<times> string) list"
  | PFeatures "(string \<times> string) list"

text \<open>An optional field as the value the expression \<^verbatim>\<open>test.field\<close> has.\<close>

definition opt_num :: "nat option \<Rightarrow> jsval" where
  "opt_num x = (case x of None \<Rightarrow> JUndefined | Some n \<Rightarrow> JNum (of_nat n))"

definition opt_str :: "string option \<Rightarrow> jsval" where
  "opt_str x = (case x of None \<Rightarrow> JUndefined | Some v \<Rightarrow> JStr v)"

definition opt_val :: "jsval option \<Rightarrow> jsval" where
  "opt_val x = (case x of None \<Rightarrow> JUndefined | Some v \<Rightarrow> v)"

text \<open>\<^verbatim>\<open>{a && (<element/>)}\<close>: the element when \<^verbatim>\<open>a\<close> is truthy, else \<^verbatim>\<open>a\<close> itself.\<close>

definition and_node :: "jsval \<Rightarrow> node \<Rightarrow> node" where
  "and_node a b = (if truthy a then b else Value a)"

text \<open>The colour of the status badge.\<close>

definition status_class :: "string \<Rightarrow> string" where
  "status_class st =
     (if st = ''SUCCESS'' then ''bg-green-600 text-white''
      else if st = ''EXPECTED_ERROR'' then ''bg-yellow-600 text-white''
      else if st = ''NETWORK_ERROR'' then ''bg-red-600 text-white''
      else if st = ''HTTP_ERROR'' then ''bg-orange-600 text-white''
      else ''bg-gray-600 text-white'')"

definition join_lines :: "string list \<Rightarrow> string" where
  "join_lines ls = (case ls of [] \<Rightarrow> [] | l # rest \<Rightarrow> l @ concat (map (\<lambda>x. CHR 0x0A # x) rest))"

text \<open>\<^verbatim>\<open>array.map((item, index) => f item index)\<close>.\<close>

definition map_indexed :: "('a \<Rightarrow> nat \<Rightarrow> 'b) \<Rightarrow> 'a list \<Rightarrow> 'b list" where
  "map_indexed f xs = map (\<lambda>(x, i). f x i) (zip xs [0..<length xs])"

subsection \<open>\<^verbatim>\<open>SSRPage\<close>\<close>

definition ssr_codeExample :: string where
  "ssr_codeExample = join_lines
    [''// app/ssr/page.tsx - Fetch Proxy Testing'',
     ''export const dynamic = 'force-dynamic'' @ [CHR 0x27],
     [],
     ''export default async function SSRPage() {'',
     ''  // Test 1: Normal fetch (may use proxy if connection fails)'',
     ''  const response1 = await fetch('https://httpbin.org/json')'',
     ''  '',
     ''  // Test 2: Timeout scenario (should trigger proxy fallback)'',
     ''  const response2 = await fetch('https://httpbin.org/delay/2')'',
     ''  '',
     ''  // Test 3: Non-existent domain (proxy will attempt)'',
     ''  const response3 = await fetch('https://non-existent-domain.com/api')'',
     ''  '',
     ''  // Test 4: POST with body (proxy should preserve body)'',
     ''  const response4 = await fetch('https://httpbin.org/post', {'',
     ''    method: 'POST','',
     ''    headers: { 'Content-Type': 'application/json' },'',
     ''    body: JSON.stringify({ test: 'proxy test' })'',
     ''  })'',
     ''  '',
     ''  return <div>Fetch Proxy Test Results</div>'',
     ''}'']"

definition ssr_render_test :: "FetchTestResult \<Rightarrow> nat \<Rightarrow> node" where
  "ssr_render_test t index =
     Keyed index (Element ''div'' ''border border-gray-600 rounded-lg p-4''
      [Element ''div'' ''flex justify-between items-start mb-2''
        [Element ''h4'' ''text-lg font-medium text-white'' [Value (JStr (test t))],
         Element ''span''
           (''px-2 py-1 rounded text-sm font-medium '' @ status_class (status t))
           [Value (JStr (status t))]],
       Element ''div'' ''grid grid-cols-1 md:grid-cols-2 gap-2 text-sm''
       [and_node (opt_num (statusCode t))
          (Element ''div'' ''text-gray-300''
            [Element ''span'' ''font-medium'' [Text ''Status Code:''], Text '' '',
             Value (opt_num (statusCode t))]),
        and_node (opt_str (proxyUsed t))
          (Element ''div'' ''text-gray-300''
            [Element ''span'' ''font-medium'' [Text ''Proxy Used:''], Text '' '',
             Value (opt_str (proxyUsed t))]),
        and_node (opt_str (error t))
          (Element ''div'' ''text-red-400 col-span-full''
            [Element ''span'' ''font-medium'' [Text ''Error:''], Text '' '',
             Value (opt_str (error t))]),
        and_node (opt_val (data t))
          (Element ''div'' ''text-green-400 col-span-full''
            [Element ''span'' ''font-medium'' [Text ''Data:''], Text '' '',
             Value (opt_val (data t))])]])"

definition ssr_view :: "SSRResults \<Rightarrow> node" where
  "ssr_view dat =
     (let ssrData =
        [(''Request Time'', JStr (requestTime dat), ''text-green-400''),
         (''Server Time'', JStr (serverTime dat), ''text-blue-400''),
         (''Real-time Value'', JNum (of_int (realtimeValue dat)), ''text-purple-400''),
         (''Server Hash'', JStr (serverHash dat), ''text-indigo-400''),
         (''Fetch Tests Count'', JNum (of_nat (length (fetchTests dat))), ''text-yellow-400'')];
       ssrFeatures =
        [(''Fetch Proxy Detection'', ''Tests if fetch requests use proxy when direct connection fails''),
         (''Error Handling'', ''Validates proper error handling for network failures''),
         (''Timeout Fallback'', ''Tests proxy fallback when requests timeout''),
         (''Body Preservation'', ''Ensures POST request bodies are preserved through proxy'')]
      in Component ''PageLayout'' []
       [Component ''DemoLayout''
         [(''title'', PString ''SSR + Fetch Proxy Test''),
          (''subtitle'', PString ''Server-side rendering with fetch proxy functionality testing and error handling validation.''),
          (''description'', PString ''This page tests the Fetch Proxy functionality by making various HTTP requests and observing proxy behavior, timeout handling, and error responses.''),
          (''codeExample'', PString ssr_codeExample),
          (''renderMode'', PString ''SSR''),
          (''dataDisplay'', PNode
            (Element ''div'' ''space-y-6''
              [Component ''DataDisplay''
                [(''title'', PString ''SSR: Server-Side Rendering + Fetch Proxy''),
                 (''description'', PString ''Real-time fetch proxy testing with various scenarios''),
                 (''data'', PRows ssrData),
                 (''features'', PFeatures ssrFeatures)] [],
               Element ''div'' ''bg-gray-800 rounded-lg p-6''
                [Element ''h3'' ''text-xl font-semibold text-white mb-4''
                  [Text ''Fetch Proxy Test Results''],
                 Element ''div'' ''space-y-4''
                  (map_indexed ssr_render_test (fetchTests dat))]]))] []])"

text \<open>\<^verbatim>\<open>const data = await getSSRData()\<close>, then the tree; an exception of the data function
  would leave the page component.\<close>

definition SSRPage :: "ssr_ambient \<Rightarrow> platform \<Rightarrow> network \<Rightarrow> thrown + node" where
  "SSRPage amb pf net =
     (case fst (getSSRData amb pf net) of
        Inl err \<Rightarrow> Inl err
      | Inr dat \<Rightarrow> Inr (ssr_view dat))"

subsection \<open>\<^verbatim>\<open>ISRPage\<close>\<close>

definition isr_codeExample :: string where
  "isr_codeExample = join_lines
    [''// app/isr/page.tsx - ISR + Fetch Proxy Testing'',
     ''export const revalidate = 10 // page-level revalidation'',
     [],
     ''export default async function ISRPage() {'',
     ''  // Test 1: ISR cached fetch (respects cache, tests proxy on miss)'',
     ''  const response1 = await fetch('https://httpbin.org/uuid', {'',
     ''    next: { revalidate: 10 } // Same as page revalidation'',
     ''  })'',
     ''  '',
     ''  // Test 2: No-cache fetch (always fresh, tests proxy)'',
     ''  const response2 = await fetch('https://httpbin.org/ip', {'',
     ''    cache: 'no-store' // Force fresh request'',
     ''  })'',
     ''  '',
     ''  // Test 3: Slow endpoint (proxy fallback with caching)'',
     ''  const response3 = await fetch('https://httpbin.org/delay/1', {'',
     ''    next: { revalidate: 10 }'',
     ''  })'',
     ''  '',
     ''  // Test 4: Error handling with ISR'',
     ''  const response4 = await fetch('https://httpbin.org/status/500', {'',
     ''    next: { revalidate: 5 }'',
     ''  })'',
     ''  '',
     ''  return <div>ISR + Fetch Proxy Test Results</div>'',
     ''}'']"

definition isr_render_test :: "ISRFetchTestResult \<Rightarrow> nat \<Rightarrow> node" where
  "isr_render_test t index =
     Keyed index (Element ''div'' ''border border-gray-600 rounded-lg p-4''
      [Element ''div'' ''flex justify-between items-start mb-2''
        [Element ''h4'' ''text-lg font-medium text-white'' [Value (JStr (test t))],
         Element ''span''
           (''px-2 py-1 rounded text-sm font-medium '' @ status_class (status t))
           [Value (JStr (status t))]],
       Element ''div'' ''grid grid-cols-1 md:grid-cols-2 gap-2 text-sm''
       [and_node (opt_num (statusCode t))
          (Element ''div'' ''text-gray-300''
            [Element ''span'' ''font-medium'' [Text ''Status Code:''], Text '' '',
             Value (opt_num (statusCode t))]),
        and_node (opt_str (proxyUsed t))
          (Element ''div'' ''text-gray-300''
            [Element ''span'' ''font-medium'' [Text ''Proxy Used:''], Text '' '',
             Value (opt_str (proxyUsed t))]),
        and_node (opt_str (cacheInfo t))
          (Element ''div'' ''text-blue-400''
            [Element ''span'' ''font-medium'' [Text ''Cache Info:''], Text '' '',
             Value (opt_str (cacheInfo t))]),
        and_node (opt_str (error t))
          (Element ''div'' ''text-red-400 col-span-full''
            [Element ''span'' ''font-medium'' [Text ''Error:''], Text '' '',
             Value (opt_str (error t))]),
        and_node (opt_val (data t))
          (Element ''div'' ''text-green-400 col-span-full''
            [Element ''span'' ''font-medium'' [Text ''Data:''], Text '' '',
             Value (opt_val (data t))])]])"

text \<open>The four items of the notes are static text; each starts with the bullet glyph
  U+2022 and a space, the glyph written here as the three bytes of its UTF-8 form.\<close>

definition bullet :: string where
  "bullet = [CHR 0xE2, CHR 0x80, CHR 0xA2]"

definition isr_notes :: node where
  "isr_notes =
     Element ''div'' ''mt-4 p-4 bg-gray-700 rounded-lg''
      [Element ''h4'' ''text-lg font-medium text-white mb-2'' [Text ''ISR Behavior Notes''],
       Element ''ul'' ''text-sm text-gray-300 space-y-1''
        [Element ''li'' [] [Text (bullet @ '' ''), Element ''strong'' [] [Text ''Development:''],
           Text '' ISR revalidates on every request for debugging''],
         Element ''li'' [] [Text (bullet @ '' ''), Element ''strong'' [] [Text ''Production:''],
           Text '' True caching behavior with 10-second intervals''],
         Element ''li'' [] [Text (bullet @ '' ''), Element ''strong'' [] [Text ''Proxy Integration:''],
           Text '' Fetch proxy works seamlessly with ISR caching''],
         Element ''li'' [] [Text (bullet @ '' ''), Element ''strong'' [] [Text ''Error Handling:''],
           Text '' Network errors may trigger proxy fallback even with cache'']]]"

definition isr_view :: "ISRResults \<Rightarrow> node" where
  "isr_view dat =
     (let isrData =
        [(''Page Build Time'', JStr (buildTime dat), ''text-blue-400''),
         (''Cache Status'', JStr (cacheStatus dat), ''text-green-400''),
         (''Fetch Tests Count'', JNum (of_nat (length (fetchTests dat))), ''text-yellow-400'')];
       isrFeatures =
        [(''ISR + Proxy Integration'', ''Tests how fetch proxy works with ISR caching mechanisms''),
         (''Cache Miss Handling'', ''Validates proxy behavior when ISR cache expires''),
         (''Error Caching'', ''Tests whether error responses are cached in ISR''),
         (''Revalidation Timing'', ''Ensures proxy requests respect ISR revalidation intervals'')]
      in Component ''PageLayout'' []
       [Component ''DemoLayout''
         [(''title'', PString ''ISR + Fetch Proxy Test''),
          (''subtitle'', PString ''Static generation with timed updates, enhanced with fetch proxy functionality testing.''),
          (''description'', PString ''This page combines ISR caching with fetch proxy testing to validate how proxy behavior interacts with Next.js caching mechanisms and revalidation strategies.''),
          (''codeExample'', PString isr_codeExample),
          (''renderMode'', PString ''ISR''),
          (''dataDisplay'', PNode
            (Element ''div'' ''space-y-6''
              [Component ''DataDisplay''
                [(''title'', PString ''ISR: Incremental Static Regeneration + Fetch Proxy''),
                 (''description'', PString ''ISR caching behavior combined with fetch proxy testing''),
                 (''data'', PRows isrData),
                 (''features'', PFeatures isrFeatures)] [],
               Element ''div'' ''bg-gray-800 rounded-lg p-6''
                [Element ''h3'' ''text-xl font-semibold text-white mb-4''
                  [Text ''ISR + Fetch Proxy Test Results''],
                 Element ''div'' ''space-y-4''
                  (map_indexed isr_render_test (fetchTests dat)),
                 isr_notes]]))] []])"

definition ISRPage :: "string \<Rightarrow> platform \<Rightarrow> network \<Rightarrow> thrown + node" where
  "ISRPage iso_buildTime pf net =
     (case fst (getISRData iso_buildTime pf net) of
        Inl err \<Rightarrow> Inl err
      | Inr dat \<Rightarrow> Inr (isr_view dat))"

section \<open>Rendering a page\<close>

text \<open>
  The framework calls the page component and renders the tree it returns. What comes out
  is a tree of host elements, texts and numbers.
\<close>

datatype dom =
    DText string
  | DNumber rat
  | DElement string string "dom list"

text \<open>The outputs of the parts of a list, in order; the first part that throws decides.\<close>

fun collect :: "(thrown + 'a list) list \<Rightarrow> thrown + 'a list" where
  "collect [] = Inr []"
| "collect (Inl e # _) = Inl e"
| "collect (Inr x # rest) = (case collect rest of Inl e \<Rightarrow> Inl e | Inr xs \<Rightarrow> Inr (x @ xs))"

definition comma_space :: "string list \<Rightarrow> string" where
  "comma_space ls = (case ls of [] \<Rightarrow> [] | l # rest \<Rightarrow> l @ concat (map (\<lambda>x. '', '' @ x) rest))"

text \<open>
  What React makes of a child written \<^verbatim>\<open>{v}\<close>: a string or a number is text (an empty
  string shows nothing), \<^verbatim>\<open>true\<close>, \<^verbatim>\<open>false\<close>, \<^verbatim>\<open>null\<close> and \<^verbatim>\<open>undefined\<close> show nothing, an
  array shows its elements, and any other object makes the render throw.
\<close>

fun render_value :: "jsval \<Rightarrow> thrown + dom list" where
  "render_value JUndefined = Inr []"
| "render_value JNull = Inr []"
| "render_value (JBool b) = Inr []"
| "render_value (JNum q) = Inr [DNumber q]"
| "render_value (JStr s) = Inr [DText s]"
| "render_value (JArr xs) = collect (map render_value xs)"
| "render_value (JObj props) =
     Inl (ErrorInstance (''Objects are not valid as a React child (found: object with keys {''
       @ comma_space (map fst props)
       @ ''}). If you meant to render a collection of children, use an array instead.''))"

text \<open>
  Modelled from the spec: the layout components \<^verbatim>\<open>PageLayout\<close>, \<^verbatim>\<open>DemoLayout\<close> and
  \<^verbatim>\<open>DataDisplay\<close>, imported from \<^verbatim>\<open>@/components/layout\<close> and not among the sources. The
  spec calls them generic, presentational display components to which the result array
  is forwarded, and the rendered output a document that contains the results and the
  static feature descriptions. So a layout component renders as a wrapper around what
  its props and its children render to, in order: a string prop as text, a node prop as
  that node, a row of data as its label and its value, a feature as its two texts. A
  host element renders its children; a key leaves no trace.
\<close>

fun render_node :: "node \<Rightarrow> thrown + dom list"
and render_prop :: "jsx_prop \<Rightarrow> thrown + dom list" where
  "render_node (Text s) = Inr [DText s]"
| "render_node (Value v) = render_value v"
| "render_node (Keyed k n) = render_node n"
| "render_node (Element tag cls children) =
     (case collect (map render_node children) of
        Inl e \<Rightarrow> Inl e
      | Inr ds \<Rightarrow> Inr [DElement tag cls ds])"
| "render_node (Component name props children) =
     (case collect (map (\<lambda>p. render_prop (snd p)) props @ map render_node children) of
        Inl e \<Rightarrow> Inl e
      | Inr ds \<Rightarrow> Inr [DElement name [] ds])"
| "render_prop (PString s) = Inr [DText s]"
| "render_prop (PNode n) = render_node n"
| "render_prop (PRows rows) =
     collect (map (\<lambda>(label, v, color).
       case render_value v of
         Inl e \<Rightarrow> Inl e
       | Inr ds \<Rightarrow> Inr [DElement ''div'' color (DText label # ds)]) rows)"
| "render_prop (PFeatures features) =
     Inr (concat (map (\<lambda>(title, description). [DText title, DText description]) features))"


text \<open>The texts of a rendered tree, in order.\<close>

fun dom_texts :: "dom \<Rightarrow> string list" where
  "dom_texts (DText s) = [s]"
| "dom_texts (DNumber q) = []"
| "dom_texts (DElement tag cls ds) = concat (map dom_texts ds)"

definition texts :: "dom list \<Rightarrow> string list" where
  "texts ds = concat (map dom_texts ds)"

text \<open>A record is shown by a rendered tree when its test name, its status and its error
  text, if it has one, are among the texts.\<close>

definition shown :: "'a FetchTestResult_scheme \<Rightarrow> dom list \<Rightarrow> bool" where
  "shown r d \<longleftrightarrow> test r \<in> set (texts d) \<and> status r \<in> set (texts d)
     \<and> (\<forall>m. error r = Some m \<longrightarrow> m \<in> set (texts d))"


section \<open>The calls of a page, by position\<close>

text \<open>
  The requests, the try blocks and the whole test cases of each page, in source order, so
  that a statement can speak of the call at position \<^verbatim>\<open>i\<close> (from 0) and of the record at
  the same position of \<^verbatim>\<open>fetchTests\<close>.
\<close>

definition ssr_requests :: "ssr_ambient \<Rightarrow> platform \<Rightarrow> request list" where
  "ssr_requests amb pf = [ssr_request1, ssr_request2, ssr_request3, ssr_request4 amb pf]"

definition ssr_tries :: "ssr_ambient \<Rightarrow> platform \<Rightarrow> network \<Rightarrow> (SSRResults, unit) prog list" where
  "ssr_tries amb pf net = [ssr_try1 pf net, ssr_try2 net, ssr_try3 net, ssr_try4 amb pf net]"

definition ssr_tests :: "ssr_ambient \<Rightarrow> platform \<Rightarrow> network \<Rightarrow> (SSRResults, unit) prog list" where
  "ssr_tests amb pf net = [ssr_test1 pf net, ssr_test2 net, ssr_test3 net, ssr_test4 amb pf net]"

definition isr_requests :: "request list" where
  "isr_requests = [isr_request1, isr_request2, isr_request3, isr_request4]"

definition isr_tries :: "platform \<Rightarrow> network \<Rightarrow> (ISRResults, unit) prog list" where
  "isr_tries pf net = [isr_try1 pf net, isr_try2 pf net, isr_try3 net, isr_try4 net]"

definition isr_tests :: "platform \<Rightarrow> network \<Rightarrow> (ISRResults, unit) prog list" where
  "isr_tests pf net = [isr_test1 pf net, isr_test2 pf net, isr_test3 net, isr_test4 net]"

text \<open>The state after one more request and one more record, and the record a test case
  appends when it runs on a state.\<close>

definition grow :: "request \<Rightarrow> 'r \<Rightarrow> ('r, 'z) Results_scheme state \<Rightarrow> ('r, 'z) Results_scheme state" where
  "grow req r s =
     s\<lparr>sent := sent s @ [req],
       results := (results s)\<lparr>fetchTests := fetchTests (results s) @ [r]\<rparr>\<rparr>"

definition appended :: "(('r, 'z) Results_scheme, unit) prog \<Rightarrow> ('r, 'z) Results_scheme state \<Rightarrow> 'r" where
  "appended b s = last (fetchTests (results (snd (b s))))"

text \<open>What a data function returned, if it returned.\<close>

definition returned :: "(thrown + 'a) \<times> 's \<Rightarrow> 'a option" where
  "returned r = (case fst r of Inl _ \<Rightarrow> None | Inr x \<Rightarrow> Some x)"

section \<open>An example platform and example networks\<close>

text \<open>
  A platform to run the pages on: \<^verbatim>\<open>JSON.stringify\<close> and the string conversion, exact on
  integers and on strings that need no escape. An object converts to
  \<^verbatim>\<open>[object Object]\<close> unless it has a \<^verbatim>\<open>toString\<close> property of its own, which after
  \<^verbatim>\<open>response.json()\<close> is never a function, so that the conversion throws.
\<close>

definition commas :: "string list \<Rightarrow> string" where
  "commas ls = (case ls of [] \<Rightarrow> [] | l # rest \<Rightarrow> l @ concat (map (\<lambda>x. CHR '','' # x) rest))"

definition show_int :: "int \<Rightarrow> string" where
  "show_int i = (if i < 0 then CHR ''-'' # show_nat (nat (- i)) else show_nat (nat i))"

fun stringify_example :: "jsval \<Rightarrow> string" where
  "stringify_example JUndefined = ''null''"
| "stringify_example JNull = ''null''"
| "stringify_example (JBool b) = (if b then ''true'' else ''false'')"
| "stringify_example (JNum q) = show_int \<lfloor>q\<rfloor>"
| "stringify_example (JStr s) = [CHR 0x22] @ s @ [CHR 0x22]"
| "stringify_example (JArr xs) = ''['' @ commas (map stringify_example xs) @ '']''"
| "stringify_example (JObj ps) =
     ''{'' @ commas (map (\<lambda>(k, v). [CHR 0x22] @ k @ [CHR 0x22] @ '':'' @ stringify_example v) ps) @ ''}''"

fun all_right :: "(thrown + string) list \<Rightarrow> thrown + string list" where
  "all_right [] = Inr []"
| "all_right (Inl e # _) = Inl e"
| "all_right (Inr x # rest) = (case all_right rest of Inl e \<Rightarrow> Inl e | Inr xs \<Rightarrow> Inr (x # xs))"

fun tostring_example :: "jsval \<Rightarrow> thrown + string" where
  "tostring_example JUndefined = Inr ''undefined''"
| "tostring_example JNull = Inr ''null''"
| "tostring_example (JBool b) = Inr (if b then ''true'' else ''false'')"
| "tostring_example (JNum q) = Inr (show_int \<lfloor>q\<rfloor>)"
| "tostring_example (JStr s) = Inr s"
| "tostring_example (JArr xs) =
     (case all_right (map (\<lambda>x. if x = JUndefined \<or> x = JNull then Inr [] else tostring_example x) xs) of
        Inl e \<Rightarrow> Inl e
      | Inr parts \<Rightarrow> Inr (commas parts))"
| "tostring_example (JObj ps) =
     (if map_of ps ''toString'' = None then Inr ''[object Object]''
      else Inl (ErrorInstance ''Cannot convert object to primitive value''))"

definition example_platform :: platform where
  "example_platform = \<lparr>JSON_stringify = stringify_example, ToString = tostring_example\<rparr>"

definition example_ambient :: ssr_ambient where
  "example_ambient = \<lparr>iso_requestTime = ''2024-01-01T00:00:00.000Z'',
     iso_serverTime = ''2024-01-01T00:00:00.000Z'',
     iso_dataFetchTime = ''2024-01-01T00:00:00.001Z'',
     random_floor = 417,
     date_now = 1704067200001,
     random_hash = ''k3x9q'',
     post_now = 1704067203512\<rparr>"

definition example_buildTime :: string where
  "example_buildTime = ''2024-01-01T00:00:00.000Z''"

text \<open>Four networks: one that answers every request with 200 and a JSON object, one that
  answers 500 with an empty body, one where every \<^verbatim>\<open>fetch\<close> throws \<^verbatim>\<open>TypeError: fetch failed\<close>,
  and one where it throws an \<^verbatim>\<open>Error\<close> whose message is empty.\<close>

definition example_body :: jsval where
  "example_body = JObj
     [(''uuid'', JStr ''6f1c1f4e-3c1b-4d0a-9d56-2f8a4f3e9b10''),
      (''origin'', JStr ''203.0.113.7''),
      (''json'', JObj [(''test'', JStr ''SSR Fetch Proxy Test'')])]"

definition response_200 :: response where
  "response_200 = \<lparr>resp_ok = True, resp_status = 200, resp_oe_proxy_used = None,
     resp_json = Inr example_body\<rparr>"

definition response_proxied :: response where
  "response_proxied = \<lparr>resp_ok = True, resp_status = 200, resp_oe_proxy_used = Some ''true'',
     resp_json = Inr example_body\<rparr>"

definition response_500 :: response where
  "response_500 = \<lparr>resp_ok = False, resp_status = 500, resp_oe_proxy_used = None,
     resp_json = Inl (ErrorInstance ''Unexpected end of JSON input'')\<rparr>"

definition net_up :: network where
  "net_up = (\<lambda>_. Inr response_200)"

definition net_proxied :: network where
  "net_proxied = (\<lambda>_. Inr response_proxied)"

definition net_500 :: network where
  "net_500 = (\<lambda>_. Inr response_500)"

definition net_down :: network where
  "net_down = (\<lambda>_. Inl (ErrorInstance ''fetch failed''))"

definition net_silent :: network where
  "net_silent = (\<lambda>_. Inl (ErrorInstance []))"

text \<open>A network on which the first call of each page fails and every other call is
  answered with 200.\<close>

definition net_flaky :: network where
  "net_flaky = (\<lambda>req.
     if req_url req = ''https://httpbin.org/json'' \<or> req_url req = ''https://httpbin.org/uuid''
     then Inl (ErrorInstance ''fetch failed'')
     else Inr response_200)"



section \<open>How one test case runs\<close>

lemmas monad_defs =
  bind_p_def seq_p_def try_catch_def attempt_def fetch_def push_def
  return_results_def

lemmas ssr_block_defs =
  ssr_test1_def ssr_try1_def ssr_catch1_def ssr_test2_def ssr_try2_def ssr_catch2_def
  ssr_test3_def ssr_try3_def ssr_catch3_def ssr_test4_def ssr_try4_def ssr_catch4_def

lemmas isr_block_defs =
  isr_test1_def isr_try1_def isr_catch1_def isr_test2_def isr_try2_def isr_catch2_def
  isr_test3_def isr_try3_def isr_catch3_def isr_test4_def isr_try4_def isr_catch4_def

lemma below_four: "i < (4::nat) \<Longrightarrow> i = 0 \<or> i = 1 \<or> i = 2 \<or> i = 3"
  by arith

text \<open>Every test case completes, having sent its request and appended one record.\<close>

lemma ssr_test1_run:
  "ssr_test1 pf net s = (Inr (), grow ssr_request1 (appended (ssr_test1 pf net) s) s)"
  unfolding appended_def ssr_block_defs monad_defs grow_def by (simp split: sum.splits)

lemma ssr_test2_run:
  "ssr_test2 net s = (Inr (), grow ssr_request2 (appended (ssr_test2 net) s) s)"
  unfolding appended_def ssr_block_defs monad_defs grow_def by (simp split: sum.splits)

lemma ssr_test3_run:
  "ssr_test3 net s = (Inr (), grow ssr_request3 (appended (ssr_test3 net) s) s)"
  unfolding appended_def ssr_block_defs monad_defs grow_def by (simp split: sum.splits)

lemma ssr_test4_run:
  "ssr_test4 amb pf net s =
     (Inr (), grow (ssr_request4 amb pf) (appended (ssr_test4 amb pf net) s) s)"
  unfolding appended_def ssr_block_defs monad_defs grow_def by (simp split: sum.splits)

lemma isr_test1_run:
  "isr_test1 pf net s = (Inr (), grow isr_request1 (appended (isr_test1 pf net) s) s)"
  unfolding appended_def isr_block_defs monad_defs grow_def by (simp split: sum.splits)

lemma isr_test2_run:
  "isr_test2 pf net s = (Inr (), grow isr_request2 (appended (isr_test2 pf net) s) s)"
  unfolding appended_def isr_block_defs monad_defs grow_def by (simp split: sum.splits)

lemma isr_test3_run:
  "isr_test3 net s = (Inr (), grow isr_request3 (appended (isr_test3 net) s) s)"
  unfolding appended_def isr_block_defs monad_defs grow_def by (simp split: sum.splits)

lemma isr_test4_run:
  "isr_test4 net s = (Inr (), grow isr_request4 (appended (isr_test4 net) s) s)"
  unfolding appended_def isr_block_defs monad_defs grow_def by (simp split: sum.splits)

lemma seq_p_run: "m s = (Inr (), s') \<Longrightarrow> seq_p m n s = n s'"
  by (simp add: seq_p_def bind_p_def)

lemma sent_grow: "sent (grow req r s) = sent s @ [req]"
  by (simp add: grow_def)

lemma fetchTests_grow: "fetchTests (results (grow req r s)) = fetchTests (results s) @ [r]"
  by (simp add: grow_def)

section \<open>How the data functions run\<close>

lemma getSSRData_run:
  "\<exists>ss st. getSSRData amb pf net = (Inr (results st), st)
     \<and> sent st = ssr_requests amb pf
     \<and> fetchTests (results st) =
         [appended (ssr_tests amb pf net ! 0) (ss ! 0), appended (ssr_tests amb pf net ! 1) (ss ! 1),
          appended (ssr_tests amb pf net ! 2) (ss ! 2), appended (ssr_tests amb pf net ! 3) (ss ! 3)]"
proof -
  define s0 where "s0 = ssr_initial amb"
  define s1 where "s1 = grow ssr_request1 (appended (ssr_test1 pf net) s0) s0"
  define s2 where "s2 = grow ssr_request2 (appended (ssr_test2 net) s1) s1"
  define s3 where "s3 = grow ssr_request3 (appended (ssr_test3 net) s2) s2"
  define s4 where "s4 = grow (ssr_request4 amb pf) (appended (ssr_test4 amb pf net) s3) s3"
  have r1: "ssr_test1 pf net s0 = (Inr (), s1)" unfolding s1_def by (rule ssr_test1_run)
  have r2: "ssr_test2 net s1 = (Inr (), s2)" unfolding s2_def by (rule ssr_test2_run)
  have r3: "ssr_test3 net s2 = (Inr (), s3)" unfolding s3_def by (rule ssr_test3_run)
  have r4: "ssr_test4 amb pf net s3 = (Inr (), s4)" unfolding s4_def by (rule ssr_test4_run)
  have run: "getSSRData amb pf net = (Inr (results s4), s4)"
    unfolding getSSRData_def getSSRData_body_def s0_def [symmetric]
    by (simp add: seq_p_run [of "ssr_test1 pf net" s0 s1, OF r1]
        seq_p_run [of "ssr_test2 net" s1 s2, OF r2]
        seq_p_run [of "ssr_test3 net" s2 s3, OF r3]
        seq_p_run [of "ssr_test4 amb pf net" s3 s4, OF r4] return_results_def)
  have s0: "sent s0 = []" "fetchTests (results s0) = []"
    by (simp_all add: s0_def ssr_initial_def)
  have snt: "sent s4 = ssr_requests amb pf"
    by (simp add: s4_def s3_def s2_def s1_def sent_grow s0 ssr_requests_def)
  have f1: "fetchTests (results s1) = [appended (ssr_test1 pf net) s0]"
    by (simp add: s1_def fetchTests_grow s0)
  have f2: "fetchTests (results s2) = fetchTests (results s1) @ [appended (ssr_test2 net) s1]"
    unfolding s2_def by (rule fetchTests_grow)
  have f3: "fetchTests (results s3) = fetchTests (results s2) @ [appended (ssr_test3 net) s2]"
    unfolding s3_def by (rule fetchTests_grow)
  have f4: "fetchTests (results s4) = fetchTests (results s3) @ [appended (ssr_test4 amb pf net) s3]"
    unfolding s4_def by (rule fetchTests_grow)
  have recs: "fetchTests (results s4) =
      [appended (ssr_tests amb pf net ! 0) ([s0, s1, s2, s3] ! 0),
       appended (ssr_tests amb pf net ! 1) ([s0, s1, s2, s3] ! 1),
       appended (ssr_tests amb pf net ! 2) ([s0, s1, s2, s3] ! 2),
       appended (ssr_tests amb pf net ! 3) ([s0, s1, s2, s3] ! 3)]"
    by (simp add: f4 f3 f2 f1 ssr_tests_def)
  show ?thesis
    using run snt recs by blast
qed

lemma getISRData_run:
  "\<exists>ss st. getISRData bt pf net = (Inr (results st), st)
     \<and> sent st = isr_requests
     \<and> fetchTests (results st) =
         [appended (isr_tests pf net ! 0) (ss ! 0), appended (isr_tests pf net ! 1) (ss ! 1),
          appended (isr_tests pf net ! 2) (ss ! 2), appended (isr_tests pf net ! 3) (ss ! 3)]"
proof -
  define s0 where "s0 = isr_initial bt"
  define s1 where "s1 = grow isr_request1 (appended (isr_test1 pf net) s0) s0"
  define s2 where "s2 = grow isr_request2 (appended (isr_test2 pf net) s1) s1"
  define s3 where "s3 = grow isr_request3 (appended (isr_test3 net) s2) s2"
  define s4 where "s4 = grow isr_request4 (appended (isr_test4 net) s3) s3"
  have r1: "isr_test1 pf net s0 = (Inr (), s1)" unfolding s1_def by (rule isr_test1_run)
  have r2: "isr_test2 pf net s1 = (Inr (), s2)" unfolding s2_def by (rule isr_test2_run)
  have r3: "isr_test3 net s2 = (Inr (), s3)" unfolding s3_def by (rule isr_test3_run)
  have r4: "isr_test4 net s3 = (Inr (), s4)" unfolding s4_def by (rule isr_test4_run)
  have run: "getISRData bt pf net = (Inr (results s4), s4)"
    unfolding getISRData_def getISRData_body_def s0_def [symmetric]
    by (simp add: seq_p_run [of "isr_test1 pf net" s0 s1, OF r1]
        seq_p_run [of "isr_test2 pf net" s1 s2, OF r2]
        seq_p_run [of "isr_test3 net" s2 s3, OF r3]
        seq_p_run [of "isr_test4 net" s3 s4, OF r4] return_results_def)
  have s0: "sent s0 = []" "fetchTests (results s0) = []"
    by (simp_all add: s0_def isr_initial_def)
  have snt: "sent s4 = isr_requests"
    by (simp add: s4_def s3_def s2_def s1_def sent_grow s0 isr_requests_def)
  have f1: "fetchTests (results s1) = [appended (isr_test1 pf net) s0]"
    by (simp add: s1_def fetchTests_grow s0)
  have f2: "fetchTests (results s2) = fetchTests (results s1) @ [appended (isr_test2 pf net) s1]"
    unfolding s2_def by (rule fetchTests_grow)
  have f3: "fetchTests (results s3) = fetchTests (results s2) @ [appended (isr_test3 net) s2]"
    unfolding s3_def by (rule fetchTests_grow)
  have f4: "fetchTests (results s4) = fetchTests (results s3) @ [appended (isr_test4 net) s3]"
    unfolding s4_def by (rule fetchTests_grow)
  have recs: "fetchTests (results s4) =
      [appended (isr_tests pf net ! 0) ([s0, s1, s2, s3] ! 0),
       appended (isr_tests pf net ! 1) ([s0, s1, s2, s3] ! 1),
       appended (isr_tests pf net ! 2) ([s0, s1, s2, s3] ! 2),
       appended (isr_tests pf net ! 3) ([s0, s1, s2, s3] ! 3)]"
    by (simp add: f4 f3 f2 f1 isr_tests_def)
  show ?thesis
    using run snt recs by blast
qed

text \<open>The same, read by position.\<close>

lemma getSSRData_nth:
  "\<exists>ss st. getSSRData amb pf net = (Inr (results st), st)
     \<and> sent st = ssr_requests amb pf
     \<and> length (fetchTests (results st)) = 4
     \<and> (\<forall>i<4. fetchTests (results st) ! i = appended (ssr_tests amb pf net ! i) (ss ! i))"
proof -
  obtain ss st where run: "getSSRData amb pf net = (Inr (results st), st)"
    and snt: "sent st = ssr_requests amb pf"
    and recs: "fetchTests (results st) =
         [appended (ssr_tests amb pf net ! 0) (ss ! 0), appended (ssr_tests amb pf net ! 1) (ss ! 1),
          appended (ssr_tests amb pf net ! 2) (ss ! 2), appended (ssr_tests amb pf net ! 3) (ss ! 3)]"
    using getSSRData_run by blast
  have "\<forall>i<4. fetchTests (results st) ! i = appended (ssr_tests amb pf net ! i) (ss ! i)"
  proof (intro allI impI)
    fix i :: nat assume "i < 4"
    from below_four [OF this] show "fetchTests (results st) ! i = appended (ssr_tests amb pf net ! i) (ss ! i)"
      by (auto simp: recs)
  qed
  moreover have "length (fetchTests (results st)) = 4" by (simp add: recs)
  ultimately show ?thesis using run snt by blast
qed

lemma getISRData_nth:
  "\<exists>ss st. getISRData bt pf net = (Inr (results st), st)
     \<and> sent st = isr_requests
     \<and> length (fetchTests (results st)) = 4
     \<and> (\<forall>i<4. fetchTests (results st) ! i = appended (isr_tests pf net ! i) (ss ! i))"
proof -
  obtain ss st where run: "getISRData bt pf net = (Inr (results st), st)"
    and snt: "sent st = isr_requests"
    and recs: "fetchTests (results st) =
         [appended (isr_tests pf net ! 0) (ss ! 0), appended (isr_tests pf net ! 1) (ss ! 1),
          appended (isr_tests pf net ! 2) (ss ! 2), appended (isr_tests pf net ! 3) (ss ! 3)]"
    using getISRData_run by blast
  have "\<forall>i<4. fetchTests (results st) ! i = appended (isr_tests pf net ! i) (ss ! i)"
  proof (intro allI impI)
    fix i :: nat assume "i < 4"
    from below_four [OF this] show "fetchTests (results st) ! i = appended (isr_tests pf net ! i) (ss ! i)"
      by (auto simp: recs)
  qed
  moreover have "length (fetchTests (results st)) = 4" by (simp add: recs)
  ultimately show ?thesis using run snt by blast
qed

section \<open>The record of a call, by the outcome of its try block\<close>

lemma ssr_thrown_record:
  assumes "i < 4" and "fst ((ssr_tries amb pf net ! i) s') = Inl e"
  shows "status (appended (ssr_tests amb pf net ! i) s) =
        (if i = 2 then ''EXPECTED_ERROR'' else ''NETWORK_ERROR'')
    \<and> error (appended (ssr_tests amb pf net ! i) s) = Some (error_text e)
    \<and> proxyUsed (appended (ssr_tests amb pf net ! i) s) =
        [None, Some ''likely_proxy'', Some ''proxy_attempted'', None] ! i
    \<and> statusCode (appended (ssr_tests amb pf net ! i) s) = None
    \<and> data (appended (ssr_tests amb pf net ! i) s) = None"
  using below_four [OF assms(1)] assms(2)
  by (auto simp: ssr_tries_def ssr_tests_def appended_def ssr_block_defs monad_defs
      split: sum.splits if_splits)

lemma isr_thrown_record:
  assumes "i < 4" and "fst ((isr_tries pf net ! i) s') = Inl e"
  shows "status (appended (isr_tests pf net ! i) s) = ''NETWORK_ERROR''
    \<and> error (appended (isr_tests pf net ! i) s) = Some (error_text e)
    \<and> proxyUsed (appended (isr_tests pf net ! i) s) =
        [Some ''likely_proxy'', Some ''likely_proxy'', Some ''proxy_attempted'',
         Some ''proxy_attempted''] ! i
    \<and> statusCode (appended (isr_tests pf net ! i) s) = None
    \<and> data (appended (isr_tests pf net ! i) s) = None"
  using below_four [OF assms(1)] assms(2)
  by (auto simp: isr_tries_def isr_tests_def appended_def isr_block_defs monad_defs
      split: sum.splits if_splits)

lemma ssr_completed_record:
  assumes "i < 4" and "net (ssr_requests amb pf ! i) = Inr response"
    and "fst ((ssr_tries amb pf net ! i) s') = Inr ()"
  shows "statusCode (appended (ssr_tests amb pf net ! i) s) = Some (resp_status response)
    \<and> status (appended (ssr_tests amb pf net ! i) s) =
        (if i = 2 then ''UNEXPECTED_SUCCESS''
         else if resp_ok response then ''SUCCESS'' else ''HTTP_ERROR'')
    \<and> proxyUsed (appended (ssr_tests amb pf net ! i) s) =
        (if i = 2 then Some ''definitely_proxy''
         else if resp_ok response
           then Some (or_str (resp_oe_proxy_used response)
                  ([''unknown'', ''likely_proxy'', ''definitely_proxy'', ''unknown''] ! i))
         else None)"
  using below_four [OF assms(1)] assms(2,3)
  by (auto simp: ssr_requests_def ssr_tries_def ssr_tests_def appended_def ssr_block_defs
      monad_defs split: sum.splits if_splits)

lemma isr_completed_record:
  assumes "i < 4" and "net (isr_requests ! i) = Inr response"
    and "fst ((isr_tries pf net ! i) s') = Inr ()"
  shows "statusCode (appended (isr_tests pf net ! i) s) = Some (resp_status response)
    \<and> status (appended (isr_tests pf net ! i) s) =
        (if i = 3 then ''HTTP_ERROR''
         else if resp_ok response then ''SUCCESS'' else ''HTTP_ERROR'')
    \<and> proxyUsed (appended (isr_tests pf net ! i) s) =
        (if i = 3 \<or> resp_ok response
           then Some (or_str (resp_oe_proxy_used response)
                  ([''unknown'', ''unknown'', ''likely_proxy'', ''unknown''] ! i))
         else None)"
  using below_four [OF assms(1)] assms(2,3)
  by (auto simp: isr_requests_def isr_tries_def isr_tests_def appended_def isr_block_defs
      monad_defs split: sum.splits if_splits)

lemma ssr_not_ok_completes:
  assumes "i < 4" and "net (ssr_requests amb pf ! i) = Inr response" and "\<not> resp_ok response"
  shows "fst ((ssr_tries amb pf net ! i) s) = Inr ()"
  using below_four [OF assms(1)] assms(2,3)
  by (auto simp: ssr_requests_def ssr_tries_def ssr_block_defs monad_defs
      split: sum.splits if_splits)

lemma isr_not_ok_completes:
  assumes "i < 4" and "net (isr_requests ! i) = Inr response" and "\<not> resp_ok response"
  shows "fst ((isr_tries pf net ! i) s) = Inr ()"
  using below_four [OF assms(1)] assms(2,3)
  by (auto simp: isr_requests_def isr_tries_def isr_block_defs monad_defs
      split: sum.splits if_splits)

text \<open>A try block either throws, or completes after the network gave a response; which of
  the two does not depend on the state it starts from.\<close>

lemma ssr_outcome:
  assumes "i < 4"
  shows "(\<exists>e. fst ((ssr_tries amb pf net ! i) s) = Inl e)
    \<or> (fst ((ssr_tries amb pf net ! i) s) = Inr ()
        \<and> (\<exists>response. net (ssr_requests amb pf ! i) = Inr response))"
  using below_four [OF assms(1)]
  by (auto simp: ssr_requests_def ssr_tries_def ssr_block_defs monad_defs
      split: sum.splits if_splits)

lemma isr_outcome:
  assumes "i < 4"
  shows "(\<exists>e. fst ((isr_tries pf net ! i) s) = Inl e)
    \<or> (fst ((isr_tries pf net ! i) s) = Inr ()
        \<and> (\<exists>response. net (isr_requests ! i) = Inr response))"
  using below_four [OF assms(1)]
  by (auto simp: isr_requests_def isr_tries_def isr_block_defs monad_defs
      split: sum.splits if_splits)

text \<open>What the status and the fields of a record say about the outcome.\<close>

lemma ssr_success_record:
  assumes k: "k < 4"
    and suc: "status (appended (ssr_tests amb pf net ! k) s) = ''SUCCESS''"
  shows "\<exists>response. net (ssr_requests amb pf ! k) = Inr response
    \<and> proxyUsed (appended (ssr_tests amb pf net ! k) s) =
        Some (or_str (resp_oe_proxy_used response) (if k = 1 then ''likely_proxy'' else ''unknown''))"
  using ssr_outcome [OF k, of amb pf net s]
proof (elim disjE exE conjE)
  fix e assume "fst ((ssr_tries amb pf net ! k) s) = Inl e"
  from ssr_thrown_record [OF k this, of s] suc show ?thesis by (simp split: if_splits)
next
  fix response
  assume c: "fst ((ssr_tries amb pf net ! k) s) = Inr ()"
    and r: "net (ssr_requests amb pf ! k) = Inr response"
  from ssr_completed_record [OF k r c, of s] suc below_four [OF k]
  have "proxyUsed (appended (ssr_tests amb pf net ! k) s) =
        Some (or_str (resp_oe_proxy_used response) (if k = 1 then ''likely_proxy'' else ''unknown''))"
    by (auto split: if_splits)
  with r show ?thesis by blast
qed

lemma isr_success_record:
  assumes k: "k < 4"
    and suc: "status (appended (isr_tests pf net ! k) s) = ''SUCCESS''"
  shows "\<exists>response. net (isr_requests ! k) = Inr response
    \<and> proxyUsed (appended (isr_tests pf net ! k) s) =
        Some (or_str (resp_oe_proxy_used response) (if k = 2 then ''likely_proxy'' else ''unknown''))"
  using isr_outcome [OF k, of pf net s]
proof (elim disjE exE conjE)
  fix e assume "fst ((isr_tries pf net ! k) s) = Inl e"
  from isr_thrown_record [OF k this, of s] suc show ?thesis by (simp split: if_splits)
next
  fix response
  assume c: "fst ((isr_tries pf net ! k) s) = Inr ()"
    and r: "net (isr_requests ! k) = Inr response"
  from isr_completed_record [OF k r c, of s] suc below_four [OF k]
  have "proxyUsed (appended (isr_tests pf net ! k) s) =
        Some (or_str (resp_oe_proxy_used response) (if k = 2 then ''likely_proxy'' else ''unknown''))"
    by (auto split: if_splits)
  with r show ?thesis by blast
qed

lemma ssr_fields_by_outcome:
  assumes k: "k < 4"
  shows "((\<exists>e. fst ((ssr_tries amb pf net ! k) s') = Inl e) \<longrightarrow>
        status (appended (ssr_tests amb pf net ! k) s) \<in> {''NETWORK_ERROR'', ''EXPECTED_ERROR''}
        \<and> statusCode (appended (ssr_tests amb pf net ! k) s) = None
        \<and> data (appended (ssr_tests amb pf net ! k) s) = None)
    \<and> (status (appended (ssr_tests amb pf net ! k) s) \<in> {''NETWORK_ERROR'', ''EXPECTED_ERROR''} \<longrightarrow>
        statusCode (appended (ssr_tests amb pf net ! k) s) = None
        \<and> data (appended (ssr_tests amb pf net ! k) s) = None)
    \<and> (statusCode (appended (ssr_tests amb pf net ! k) s) \<noteq> None
        \<or> data (appended (ssr_tests amb pf net ! k) s) \<noteq> None \<longrightarrow>
        fst ((ssr_tries amb pf net ! k) s') = Inr ()
        \<and> (\<exists>response. net (ssr_requests amb pf ! k) = Inr response))"
  using ssr_outcome [OF k, of amb pf net s']
proof (elim disjE exE conjE)
  fix e assume t: "fst ((ssr_tries amb pf net ! k) s') = Inl e"
  from ssr_thrown_record [OF k t, of s] show ?thesis by simp
next
  fix response
  assume c: "fst ((ssr_tries amb pf net ! k) s') = Inr ()"
    and r: "net (ssr_requests amb pf ! k) = Inr response"
  from ssr_completed_record [OF k r c, of s] c r show ?thesis by auto
qed

lemma isr_fields_by_outcome:
  assumes k: "k < 4"
  shows "((\<exists>e. fst ((isr_tries pf net ! k) s') = Inl e) \<longrightarrow>
        status (appended (isr_tests pf net ! k) s) \<in> {''NETWORK_ERROR'', ''EXPECTED_ERROR''}
        \<and> statusCode (appended (isr_tests pf net ! k) s) = None
        \<and> data (appended (isr_tests pf net ! k) s) = None)
    \<and> (status (appended (isr_tests pf net ! k) s) \<in> {''NETWORK_ERROR'', ''EXPECTED_ERROR''} \<longrightarrow>
        statusCode (appended (isr_tests pf net ! k) s) = None
        \<and> data (appended (isr_tests pf net ! k) s) = None)
    \<and> (statusCode (appended (isr_tests pf net ! k) s) \<noteq> None
        \<or> data (appended (isr_tests pf net ! k) s) \<noteq> None \<longrightarrow>
        fst ((isr_tries pf net ! k) s') = Inr ()
        \<and> (\<exists>response. net (isr_requests ! k) = Inr response))"
  using isr_outcome [OF k, of pf net s']
proof (elim disjE exE conjE)
  fix e assume t: "fst ((isr_tries pf net ! k) s') = Inl e"
  from isr_thrown_record [OF k t, of s] show ?thesis by simp
next
  fix response
  assume c: "fst ((isr_tries pf net ! k) s') = Inr ()"
    and r: "net (isr_requests ! k) = Inr response"
  from isr_completed_record [OF k r c, of s] c r show ?thesis by auto
qed

section \<open>What renders\<close>












section \<open>Evaluating on the examples\<close>

lemmas run_defs =
  getSSRData_def getSSRData_body_def ssr_initial_def ssr_block_defs
  getISRData_def getISRData_body_def isr_initial_def isr_block_defs
  monad_defs returned_def get_prop_def opt_prop_def truthy_def or_str_def error_text_def


section \<open>The claims\<close>

text \<open>
  In what follows \<^verbatim>\<open>i\<close> is a position of the SSR page and \<^verbatim>\<open>j\<close> one of the ISR page
  (0 to 3, in source order), and the state \<^verbatim>\<open>s\<close> a try block starts from is arbitrary:
  whether the block throws does not depend on it (\<^verbatim>\<open>ssr_outcome\<close>, \<^verbatim>\<open>isr_outcome\<close>).
\<close>

text \<open>
  C1, as amended. When a call completes without throwing (\<^verbatim>\<open>fetch\<close>, the body read and
  the preview) and its response is ok, the record at its position carries the status
  code of the response; its status is \<^verbatim>\<open>SUCCESS\<close> for the six calls that test
  \<^verbatim>\<open>response.ok\<close>, \<^verbatim>\<open>UNEXPECTED_SUCCESS\<close> for the non-existent-domain probe of the SSR page,
  and \<^verbatim>\<open>HTTP_ERROR\<close> for the error endpoint of the ISR page.
\<close>

theorem ok_response_record:
  "(i < 4 \<and> net (ssr_requests amb pf ! i) = Inr response \<and> resp_ok response
      \<and> fst ((ssr_tries amb pf net ! i) s) = Inr ()
    \<longrightarrow> (\<exists>res st. getSSRData amb pf net = (Inr res, st)
          \<and> statusCode (fetchTests res ! i) = Some (resp_status response)
          \<and> status (fetchTests res ! i) = (if i = 2 then ''UNEXPECTED_SUCCESS'' else ''SUCCESS'')))
   \<and> (j < 4 \<and> net' (isr_requests ! j) = Inr response' \<and> resp_ok response'
      \<and> fst ((isr_tries pf' net' ! j) s') = Inr ()
    \<longrightarrow> (\<exists>res st. getISRData bt pf' net' = (Inr res, st)
          \<and> statusCode (fetchTests res ! j) = Some (resp_status response')
          \<and> status (fetchTests res ! j) = (if j = 3 then ''HTTP_ERROR'' else ''SUCCESS'')))"
proof (intro conjI impI)
  assume h: "i < 4 \<and> net (ssr_requests amb pf ! i) = Inr response \<and> resp_ok response
      \<and> fst ((ssr_tries amb pf net ! i) s) = Inr ()"
  obtain ss st where run: "getSSRData amb pf net = (Inr (results st), st)"
    and nth: "\<forall>k<4. fetchTests (results st) ! k = appended (ssr_tests amb pf net ! k) (ss ! k)"
    using getSSRData_nth by blast
  from h nth have eq: "fetchTests (results st) ! i = appended (ssr_tests amb pf net ! i) (ss ! i)"
    by blast
  from h have "statusCode (fetchTests (results st) ! i) = Some (resp_status response)
      \<and> status (fetchTests (results st) ! i) = (if i = 2 then ''UNEXPECTED_SUCCESS'' else ''SUCCESS'')"
    using ssr_completed_record [of i net amb pf response s "ss ! i"] by (simp add: eq)
  with run show "\<exists>res st. getSSRData amb pf net = (Inr res, st)
          \<and> statusCode (fetchTests res ! i) = Some (resp_status response)
          \<and> status (fetchTests res ! i) = (if i = 2 then ''UNEXPECTED_SUCCESS'' else ''SUCCESS'')"
    by blast
next
  assume h: "j < 4 \<and> net' (isr_requests ! j) = Inr response' \<and> resp_ok response'
      \<and> fst ((isr_tries pf' net' ! j) s') = Inr ()"
  obtain ss st where run: "getISRData bt pf' net' = (Inr (results st), st)"
    and nth: "\<forall>k<4. fetchTests (results st) ! k = appended (isr_tests pf' net' ! k) (ss ! k)"
    using getISRData_nth by blast
  from h nth have eq: "fetchTests (results st) ! j = appended (isr_tests pf' net' ! j) (ss ! j)"
    by blast
  from h have "statusCode (fetchTests (results st) ! j) = Some (resp_status response')
      \<and> status (fetchTests (results st) ! j) = (if j = 3 then ''HTTP_ERROR'' else ''SUCCESS'')"
    using isr_completed_record [of j net' response' pf' s' "ss ! j"] by (simp add: eq)
  with run show "\<exists>res st. getISRData bt pf' net' = (Inr res, st)
          \<and> statusCode (fetchTests res ! j) = Some (resp_status response')
          \<and> status (fetchTests res ! j) = (if j = 3 then ''HTTP_ERROR'' else ''SUCCESS'')"
    by blast
qed

text \<open>The POST request of the SSR page and the cached fetch of the ISR page, on a network
  that answers 200.\<close>

theorem ok_response_record_witness:
  "(\<exists>res st. getSSRData example_ambient example_platform net_up = (Inr res, st)
      \<and> statusCode (fetchTests res ! 3) = Some (resp_status response_200)
      \<and> status (fetchTests res ! 3) = ''SUCCESS'')
   \<and> (\<exists>res st. getISRData example_buildTime example_platform net_up = (Inr res, st)
      \<and> statusCode (fetchTests res ! 0) = Some (resp_status response_200)
      \<and> status (fetchTests res ! 0) = ''SUCCESS'')"
proof -
  have h1: "(3::nat) < 4 \<and> net_up (ssr_requests example_ambient example_platform ! 3) = Inr response_200
      \<and> resp_ok response_200
      \<and> fst ((ssr_tries example_ambient example_platform net_up ! 3) (ssr_initial example_ambient)) = Inr ()"
    by (simp add: ssr_tries_def ssr_try4_def monad_defs net_up_def response_200_def example_body_def
        example_platform_def get_prop_def opt_prop_def truthy_def)
  have h2: "(0::nat) < 4 \<and> net_up (isr_requests ! 0) = Inr response_200
      \<and> resp_ok response_200
      \<and> fst ((isr_tries example_platform net_up ! 0) (isr_initial example_buildTime)) = Inr ()"
    by (simp add: isr_tries_def isr_try1_def monad_defs net_up_def response_200_def example_body_def
        get_prop_def)
  show ?thesis
    using ok_response_record [of 3 net_up example_ambient example_platform response_200
        "ssr_initial example_ambient" 0 net_up response_200 example_platform
        "isr_initial example_buildTime" example_buildTime] h1 h2
    by simp
qed

text \<open>C1 as stated fails: on the same network the probe completes with an ok response and
  its record is \<^verbatim>\<open>UNEXPECTED_SUCCESS\<close>; the error endpoint completes with an ok response
  and its record is \<^verbatim>\<open>HTTP_ERROR\<close>.\<close>

theorem ok_response_counterexample:
  "net_up ssr_request3 = Inr response_200 \<and> resp_ok response_200
   \<and> fst (ssr_try3 net_up (ssr_initial example_ambient)) = Inr ()
   \<and> map_option (map status \<circ> fetchTests)
        (returned (getSSRData example_ambient example_platform net_up)) =
      Some [''SUCCESS'', ''SUCCESS'', ''UNEXPECTED_SUCCESS'', ''SUCCESS'']
   \<and> net_up isr_request4 = Inr response_200
   \<and> fst (isr_try4 net_up (isr_initial example_buildTime)) = Inr ()
   \<and> map_option (map status \<circ> fetchTests)
        (returned (getISRData example_buildTime example_platform net_up)) =
      Some [''SUCCESS'', ''SUCCESS'', ''SUCCESS'', ''HTTP_ERROR'']"
  by (simp add: run_defs net_up_def response_200_def example_body_def example_platform_def)

text \<open>
  C2, as amended. When the network answers a call with a response that is not ok, the
  try block completes and the record at the call's position carries the status code of
  the response; its status is \<^verbatim>\<open>HTTP_ERROR\<close> for every call but the non-existent-domain
  probe of the SSR page, whose record is \<^verbatim>\<open>UNEXPECTED_SUCCESS\<close>.
\<close>

theorem not_ok_response_record:
  "(i < 4 \<and> net (ssr_requests amb pf ! i) = Inr response \<and> \<not> resp_ok response
    \<longrightarrow> fst ((ssr_tries amb pf net ! i) s) = Inr ()
      \<and> (\<exists>res st. getSSRData amb pf net = (Inr res, st)
          \<and> statusCode (fetchTests res ! i) = Some (resp_status response)
          \<and> status (fetchTests res ! i) = (if i = 2 then ''UNEXPECTED_SUCCESS'' else ''HTTP_ERROR'')))
   \<and> (j < 4 \<and> net' (isr_requests ! j) = Inr response' \<and> \<not> resp_ok response'
    \<longrightarrow> fst ((isr_tries pf' net' ! j) s') = Inr ()
      \<and> (\<exists>res st. getISRData bt pf' net' = (Inr res, st)
          \<and> statusCode (fetchTests res ! j) = Some (resp_status response')
          \<and> status (fetchTests res ! j) = ''HTTP_ERROR''))"
proof (intro conjI impI)
  assume h: "i < 4 \<and> net (ssr_requests amb pf ! i) = Inr response \<and> \<not> resp_ok response"
  then show c: "fst ((ssr_tries amb pf net ! i) s) = Inr ()"
    using ssr_not_ok_completes by blast
  obtain ss st where run: "getSSRData amb pf net = (Inr (results st), st)"
    and nth: "\<forall>k<4. fetchTests (results st) ! k = appended (ssr_tests amb pf net ! k) (ss ! k)"
    using getSSRData_nth by blast
  from h nth have eq: "fetchTests (results st) ! i = appended (ssr_tests amb pf net ! i) (ss ! i)"
    by blast
  from h c have "statusCode (fetchTests (results st) ! i) = Some (resp_status response)
      \<and> status (fetchTests (results st) ! i) = (if i = 2 then ''UNEXPECTED_SUCCESS'' else ''HTTP_ERROR'')"
    using ssr_completed_record [of i net amb pf response s "ss ! i"] by (simp add: eq)
  with run show "\<exists>res st. getSSRData amb pf net = (Inr res, st)
          \<and> statusCode (fetchTests res ! i) = Some (resp_status response)
          \<and> status (fetchTests res ! i) = (if i = 2 then ''UNEXPECTED_SUCCESS'' else ''HTTP_ERROR'')"
    by blast
next
  assume h: "j < 4 \<and> net' (isr_requests ! j) = Inr response' \<and> \<not> resp_ok response'"
  then show c: "fst ((isr_tries pf' net' ! j) s') = Inr ()"
    using isr_not_ok_completes by blast
  obtain ss st where run: "getISRData bt pf' net' = (Inr (results st), st)"
    and nth: "\<forall>k<4. fetchTests (results st) ! k = appended (isr_tests pf' net' ! k) (ss ! k)"
    using getISRData_nth by blast
  from h nth have eq: "fetchTests (results st) ! j = appended (isr_tests pf' net' ! j) (ss ! j)"
    by blast
  from h c have "statusCode (fetchTests (results st) ! j) = Some (resp_status response')
      \<and> status (fetchTests (results st) ! j) = ''HTTP_ERROR''"
    using isr_completed_record [of j net' response' pf' s' "ss ! j"] by (simp add: eq)
  with run show "\<exists>res st. getISRData bt pf' net' = (Inr res, st)
          \<and> statusCode (fetchTests res ! j) = Some (resp_status response')
          \<and> status (fetchTests res ! j) = ''HTTP_ERROR''"
    by blast
qed

text \<open>
  The first call of the SSR page and the last call of the ISR page, on a network that
  answers 500.
\<close>

theorem not_ok_response_record_witness:
  "(\<exists>res st. getSSRData example_ambient example_platform net_500 = (Inr res, st)
      \<and> statusCode (fetchTests res ! 0) = Some (resp_status response_500)
      \<and> status (fetchTests res ! 0) = ''HTTP_ERROR'')
   \<and> (\<exists>res st. getISRData example_buildTime example_platform net_500 = (Inr res, st)
      \<and> statusCode (fetchTests res ! 3) = Some (resp_status response_500)
      \<and> status (fetchTests res ! 3) = ''HTTP_ERROR'')"
proof -
  have h1: "(0::nat) < 4 \<and> net_500 (ssr_requests example_ambient example_platform ! 0) = Inr response_500
      \<and> \<not> resp_ok response_500"
    by (simp add: net_500_def response_500_def)
  have h2: "(3::nat) < 4 \<and> net_500 (isr_requests ! 3) = Inr response_500 \<and> \<not> resp_ok response_500"
    by (simp add: net_500_def response_500_def)
  show ?thesis
    using not_ok_response_record [of 0 net_500 example_ambient example_platform response_500
        "ssr_initial example_ambient" 3 net_500 response_500 example_platform
        "isr_initial example_buildTime" example_buildTime] h1 h2
    by simp
qed

text \<open>
  C2 as stated fails: on that network the probe gets a response that is not ok, its try
  block completes, and its record is \<^verbatim>\<open>UNEXPECTED_SUCCESS\<close> with status code 500.
\<close>

theorem not_ok_response_counterexample:
  "net_500 ssr_request3 = Inr response_500 \<and> \<not> resp_ok response_500
   \<and> fst (ssr_try3 net_500 (ssr_initial example_ambient)) = Inr ()
   \<and> map_option (map status \<circ> fetchTests)
        (returned (getSSRData example_ambient example_platform net_500)) =
      Some [''HTTP_ERROR'', ''HTTP_ERROR'', ''UNEXPECTED_SUCCESS'', ''HTTP_ERROR'']
   \<and> map_option (map statusCode \<circ> fetchTests)
        (returned (getSSRData example_ambient example_platform net_500)) =
      Some [Some 500, Some 500, Some 500, Some 500]"
  by (simp add: run_defs net_500_def response_500_def example_platform_def)

text \<open>
  C3, as amended. When the try block of a call throws (the \<^verbatim>\<open>fetch\<close>, the body read or
  the preview), the record at the call's position has status \<^verbatim>\<open>NETWORK_ERROR\<close>, or
  \<^verbatim>\<open>EXPECTED_ERROR\<close> for the non-existent-domain probe of the SSR page, and its error
  field is the message text of what was thrown, whatever that text is.
\<close>

theorem thrown_call_record:
  "(i < 4 \<and> fst ((ssr_tries amb pf net ! i) s) = Inl e
    \<longrightarrow> (\<exists>res st. getSSRData amb pf net = (Inr res, st)
          \<and> status (fetchTests res ! i) = (if i = 2 then ''EXPECTED_ERROR'' else ''NETWORK_ERROR'')
          \<and> error (fetchTests res ! i) = Some (error_text e)))
   \<and> (j < 4 \<and> fst ((isr_tries pf' net' ! j) s') = Inl e'
    \<longrightarrow> (\<exists>res st. getISRData bt pf' net' = (Inr res, st)
          \<and> status (fetchTests res ! j) = ''NETWORK_ERROR''
          \<and> error (fetchTests res ! j) = Some (error_text e')))"
proof (intro conjI impI)
  assume h: "i < 4 \<and> fst ((ssr_tries amb pf net ! i) s) = Inl e"
  obtain ss st where run: "getSSRData amb pf net = (Inr (results st), st)"
    and nth: "\<forall>k<4. fetchTests (results st) ! k = appended (ssr_tests amb pf net ! k) (ss ! k)"
    using getSSRData_nth by blast
  from h nth have eq: "fetchTests (results st) ! i = appended (ssr_tests amb pf net ! i) (ss ! i)"
    by blast
  from h have "status (fetchTests (results st) ! i) = (if i = 2 then ''EXPECTED_ERROR'' else ''NETWORK_ERROR'')
      \<and> error (fetchTests (results st) ! i) = Some (error_text e)"
    using ssr_thrown_record [of i amb pf net s e "ss ! i"] by (simp add: eq)
  with run show "\<exists>res st. getSSRData amb pf net = (Inr res, st)
          \<and> status (fetchTests res ! i) = (if i = 2 then ''EXPECTED_ERROR'' else ''NETWORK_ERROR'')
          \<and> error (fetchTests res ! i) = Some (error_text e)"
    by blast
next
  assume h: "j < 4 \<and> fst ((isr_tries pf' net' ! j) s') = Inl e'"
  obtain ss st where run: "getISRData bt pf' net' = (Inr (results st), st)"
    and nth: "\<forall>k<4. fetchTests (results st) ! k = appended (isr_tests pf' net' ! k) (ss ! k)"
    using getISRData_nth by blast
  from h nth have eq: "fetchTests (results st) ! j = appended (isr_tests pf' net' ! j) (ss ! j)"
    by blast
  from h have "status (fetchTests (results st) ! j) = ''NETWORK_ERROR''
      \<and> error (fetchTests (results st) ! j) = Some (error_text e')"
    using isr_thrown_record [of j pf' net' s' e' "ss ! j"] by (simp add: eq)
  with run show "\<exists>res st. getISRData bt pf' net' = (Inr res, st)
          \<and> status (fetchTests res ! j) = ''NETWORK_ERROR''
          \<and> error (fetchTests res ! j) = Some (error_text e')"
    by blast
qed

text \<open>
  The first call of the SSR page and the second call of the ISR page, on a network where
  every \<^verbatim>\<open>fetch\<close> throws.
\<close>

theorem thrown_call_record_witness:
  "(\<exists>res st. getSSRData example_ambient example_platform net_down = (Inr res, st)
      \<and> status (fetchTests res ! 0) = ''NETWORK_ERROR''
      \<and> error (fetchTests res ! 0) = Some ''fetch failed'')
   \<and> (\<exists>res st. getISRData example_buildTime example_platform net_down = (Inr res, st)
      \<and> status (fetchTests res ! 1) = ''NETWORK_ERROR''
      \<and> error (fetchTests res ! 1) = Some ''fetch failed'')"
proof -
  have h1: "(0::nat) < 4 \<and> fst ((ssr_tries example_ambient example_platform net_down ! 0)
      (ssr_initial example_ambient)) = Inl (ErrorInstance ''fetch failed'')"
    by (simp add: ssr_tries_def ssr_try1_def monad_defs net_down_def)
  have h2: "(1::nat) < 4 \<and> fst ((isr_tries example_platform net_down ! 1)
      (isr_initial example_buildTime)) = Inl (ErrorInstance ''fetch failed'')"
    by (simp add: isr_tries_def isr_try2_def monad_defs net_down_def)
  show ?thesis
    using thrown_call_record [of 0 example_ambient example_platform net_down
        "ssr_initial example_ambient" "ErrorInstance ''fetch failed''"
        1 example_platform net_down "isr_initial example_buildTime"
        "ErrorInstance ''fetch failed''" example_buildTime] h1 h2
    by (simp add: error_text_def)
qed

text \<open>
  C3 as stated fails twice. Where every \<^verbatim>\<open>fetch\<close> throws, the record of the probe is
  \<^verbatim>\<open>EXPECTED_ERROR\<close>; and where what is thrown is an \<^verbatim>\<open>Error\<close> with an empty message, the
  error field of every record is the empty string.
\<close>

theorem thrown_call_counterexample:
  "fst (ssr_try3 net_down (ssr_initial example_ambient)) = Inl (ErrorInstance ''fetch failed'')
   \<and> map_option (map status \<circ> fetchTests)
        (returned (getSSRData example_ambient example_platform net_down)) =
      Some [''NETWORK_ERROR'', ''NETWORK_ERROR'', ''EXPECTED_ERROR'', ''NETWORK_ERROR'']
   \<and> fst (isr_try1 example_platform net_silent (isr_initial example_buildTime)) =
      Inl (ErrorInstance [])
   \<and> map_option (map error \<circ> fetchTests)
        (returned (getISRData example_buildTime example_platform net_silent)) =
      Some [Some [], Some [], Some [], Some []]"
  by (simp add: run_defs net_down_def net_silent_def)

text \<open>
  C4. Whatever the network answers, each data function returns, and the \<^verbatim>\<open>fetchTests\<close>
  array of what it returns has length 4.
\<close>

theorem fetchTests_length:
  "(\<exists>res st. getSSRData amb pf net = (Inr res, st) \<and> length (fetchTests res) = 4)
   \<and> (\<exists>res st. getISRData bt pf' net' = (Inr res, st) \<and> length (fetchTests res) = 4)"
  using getSSRData_nth [of amb pf net] getISRData_nth [of bt pf' net'] by blast

text \<open>
  On a network where one call fails, and on one where all fail.
\<close>

theorem fetchTests_length_witness:
  "(\<exists>res st. getSSRData example_ambient example_platform net_flaky = (Inr res, st)
      \<and> length (fetchTests res) = 4)
   \<and> (\<exists>res st. getISRData example_buildTime example_platform net_down = (Inr res, st)
      \<and> length (fetchTests res) = 4)"
  using fetchTests_length [of example_ambient example_platform net_flaky
      example_buildTime example_platform net_down] .




text \<open>
  C6, as amended. When the try block of a call throws, the record at the call's position
  carries the message text of what was thrown in its error field. Its \<^verbatim>\<open>proxyUsed\<close> field
  is a fixed guess for the timeout test and the probe of the SSR page and for all four
  calls of the ISR page; for the normal fetch and the POST request of the SSR page it is
  absent.
\<close>

theorem thrown_call_message_and_guess:
  "(i < 4 \<and> fst ((ssr_tries amb pf net ! i) s) = Inl e
    \<longrightarrow> (\<exists>res st. getSSRData amb pf net = (Inr res, st)
          \<and> error (fetchTests res ! i) = Some (error_text e)
          \<and> proxyUsed (fetchTests res ! i) =
              [None, Some ''likely_proxy'', Some ''proxy_attempted'', None] ! i))
   \<and> (j < 4 \<and> fst ((isr_tries pf' net' ! j) s') = Inl e'
    \<longrightarrow> (\<exists>res st. getISRData bt pf' net' = (Inr res, st)
          \<and> error (fetchTests res ! j) = Some (error_text e')
          \<and> proxyUsed (fetchTests res ! j) =
              [Some ''likely_proxy'', Some ''likely_proxy'', Some ''proxy_attempted'',
               Some ''proxy_attempted''] ! j))"
proof (intro conjI impI)
  assume h: "i < 4 \<and> fst ((ssr_tries amb pf net ! i) s) = Inl e"
  obtain ss st where run: "getSSRData amb pf net = (Inr (results st), st)"
    and nth: "\<forall>k<4. fetchTests (results st) ! k = appended (ssr_tests amb pf net ! k) (ss ! k)"
    using getSSRData_nth by blast
  from h nth have eq: "fetchTests (results st) ! i = appended (ssr_tests amb pf net ! i) (ss ! i)"
    by blast
  from h have "error (fetchTests (results st) ! i) = Some (error_text e)
      \<and> proxyUsed (fetchTests (results st) ! i) =
          [None, Some ''likely_proxy'', Some ''proxy_attempted'', None] ! i"
    using ssr_thrown_record [of i amb pf net s e "ss ! i"] by (simp add: eq)
  with run show "\<exists>res st. getSSRData amb pf net = (Inr res, st)
          \<and> error (fetchTests res ! i) = Some (error_text e)
          \<and> proxyUsed (fetchTests res ! i) =
              [None, Some ''likely_proxy'', Some ''proxy_attempted'', None] ! i"
    by blast
next
  assume h: "j < 4 \<and> fst ((isr_tries pf' net' ! j) s') = Inl e'"
  obtain ss st where run: "getISRData bt pf' net' = (Inr (results st), st)"
    and nth: "\<forall>k<4. fetchTests (results st) ! k = appended (isr_tests pf' net' ! k) (ss ! k)"
    using getISRData_nth by blast
  from h nth have eq: "fetchTests (results st) ! j = appended (isr_tests pf' net' ! j) (ss ! j)"
    by blast
  from h have "error (fetchTests (results st) ! j) = Some (error_text e')
      \<and> proxyUsed (fetchTests (results st) ! j) =
          [Some ''likely_proxy'', Some ''likely_proxy'', Some ''proxy_attempted'',
           Some ''proxy_attempted''] ! j"
    using isr_thrown_record [of j pf' net' s' e' "ss ! j"] by (simp add: eq)
  with run show "\<exists>res st. getISRData bt pf' net' = (Inr res, st)
          \<and> error (fetchTests res ! j) = Some (error_text e')
          \<and> proxyUsed (fetchTests res ! j) =
              [Some ''likely_proxy'', Some ''likely_proxy'', Some ''proxy_attempted'',
               Some ''proxy_attempted''] ! j"
    by blast
qed

text \<open>
  The timeout test of the SSR page where every \<^verbatim>\<open>fetch\<close> throws, and the first call of the
  ISR page where only that call fails.
\<close>

theorem thrown_call_message_and_guess_witness:
  "(\<exists>res st. getSSRData example_ambient example_platform net_down = (Inr res, st)
      \<and> error (fetchTests res ! 1) = Some ''fetch failed''
      \<and> proxyUsed (fetchTests res ! 1) = Some ''likely_proxy'')
   \<and> (\<exists>res st. getISRData example_buildTime example_platform net_flaky = (Inr res, st)
      \<and> error (fetchTests res ! 0) = Some ''fetch failed''
      \<and> proxyUsed (fetchTests res ! 0) = Some ''likely_proxy'')"
proof -
  have h1: "(1::nat) < 4 \<and> fst ((ssr_tries example_ambient example_platform net_down ! 1)
      (ssr_initial example_ambient)) = Inl (ErrorInstance ''fetch failed'')"
    by (simp add: ssr_tries_def ssr_try2_def monad_defs net_down_def)
  have h2: "(0::nat) < 4 \<and> fst ((isr_tries example_platform net_flaky ! 0)
      (isr_initial example_buildTime)) = Inl (ErrorInstance ''fetch failed'')"
    by (simp add: isr_tries_def isr_try1_def isr_request1_def monad_defs net_flaky_def)
  show ?thesis
    using thrown_call_message_and_guess [of 1 example_ambient example_platform net_down
        "ssr_initial example_ambient" "ErrorInstance ''fetch failed''"
        0 example_platform net_flaky "isr_initial example_buildTime"
        "ErrorInstance ''fetch failed''" example_buildTime] h1 h2
    by (simp add: error_text_def)
qed

text \<open>
  C6 as stated fails: where every \<^verbatim>\<open>fetch\<close> throws, the network-error records of the
  normal fetch and of the POST request of the SSR page have no \<^verbatim>\<open>proxyUsed\<close> field.
\<close>

theorem thrown_call_guess_counterexample:
  "fst (ssr_try1 example_platform net_down (ssr_initial example_ambient)) =
      Inl (ErrorInstance ''fetch failed'')
   \<and> fst (ssr_try4 example_ambient example_platform net_down (ssr_initial example_ambient)) =
      Inl (ErrorInstance ''fetch failed'')
   \<and> map_option (map status \<circ> fetchTests)
        (returned (getSSRData example_ambient example_platform net_down)) =
      Some [''NETWORK_ERROR'', ''NETWORK_ERROR'', ''EXPECTED_ERROR'', ''NETWORK_ERROR'']
   \<and> map_option (map proxyUsed \<circ> fetchTests)
        (returned (getSSRData example_ambient example_platform net_down)) =
      Some [None, Some ''likely_proxy'', Some ''proxy_attempted'', None]"
  by (simp add: run_defs net_down_def)

text \<open>
  C7. The status of every record of the returned \<^verbatim>\<open>fetchTests\<close> is one of the five values
  of the enumeration. (The field is not optional: every record has it.)
\<close>

theorem status_enumeration:
  "(\<exists>res st. getSSRData amb pf net = (Inr res, st)
      \<and> set (map status (fetchTests res)) \<subseteq>
          {''SUCCESS'', ''HTTP_ERROR'', ''NETWORK_ERROR'', ''EXPECTED_ERROR'', ''UNEXPECTED_SUCCESS''})
   \<and> (\<exists>res st. getISRData bt pf' net' = (Inr res, st)
      \<and> set (map status (fetchTests res)) \<subseteq>
          {''SUCCESS'', ''HTTP_ERROR'', ''NETWORK_ERROR'', ''EXPECTED_ERROR'', ''UNEXPECTED_SUCCESS''})"
proof -
  let ?S = "{''SUCCESS'', ''HTTP_ERROR'', ''NETWORK_ERROR'', ''EXPECTED_ERROR'', ''UNEXPECTED_SUCCESS''}"
  obtain ss st where run: "getSSRData amb pf net = (Inr (results st), st)"
    and len: "length (fetchTests (results st)) = 4"
    and nth: "\<forall>k<4. fetchTests (results st) ! k = appended (ssr_tests amb pf net ! k) (ss ! k)"
    using getSSRData_nth by blast
  have one: "status (fetchTests (results st) ! k) \<in> ?S" if k: "k < 4" for k
  proof -
    from k nth have eq: "fetchTests (results st) ! k = appended (ssr_tests amb pf net ! k) (ss ! k)"
      by blast
    from ssr_outcome [OF k, of amb pf net "ss ! k"] show ?thesis
    proof (elim disjE exE conjE)
      fix e assume "fst ((ssr_tries amb pf net ! k) (ss ! k)) = Inl e"
      from ssr_thrown_record [OF k this, of "ss ! k"] show ?thesis by (simp add: eq)
    next
      fix response
      assume "fst ((ssr_tries amb pf net ! k) (ss ! k)) = Inr ()"
        and "net (ssr_requests amb pf ! k) = Inr response"
      from ssr_completed_record [OF k this(2) this(1), of "ss ! k"] show ?thesis
        by (simp add: eq)
    qed
  qed
  have ssr: "set (map status (fetchTests (results st))) \<subseteq> ?S"
  proof
    fix x assume "x \<in> set (map status (fetchTests (results st)))"
    then obtain k where "k < 4" and "x = status (fetchTests (results st) ! k)"
      using len by (auto simp: in_set_conv_nth)
    then show "x \<in> ?S" using one by blast
  qed
  obtain ss' st' where run': "getISRData bt pf' net' = (Inr (results st'), st')"
    and len': "length (fetchTests (results st')) = 4"
    and nth': "\<forall>k<4. fetchTests (results st') ! k = appended (isr_tests pf' net' ! k) (ss' ! k)"
    using getISRData_nth by blast
  have one': "status (fetchTests (results st') ! k) \<in> ?S" if k: "k < 4" for k
  proof -
    from k nth' have eq: "fetchTests (results st') ! k = appended (isr_tests pf' net' ! k) (ss' ! k)"
      by blast
    from isr_outcome [OF k, of pf' net' "ss' ! k"] show ?thesis
    proof (elim disjE exE conjE)
      fix e assume "fst ((isr_tries pf' net' ! k) (ss' ! k)) = Inl e"
      from isr_thrown_record [OF k this, of "ss' ! k"] show ?thesis by (simp add: eq)
    next
      fix response
      assume "fst ((isr_tries pf' net' ! k) (ss' ! k)) = Inr ()"
        and "net' (isr_requests ! k) = Inr response"
      from isr_completed_record [OF k this(2) this(1), of "ss' ! k"] show ?thesis
        by (simp add: eq)
    qed
  qed
  have isr: "set (map status (fetchTests (results st'))) \<subseteq> ?S"
  proof
    fix x assume "x \<in> set (map status (fetchTests (results st')))"
    then obtain k where "k < 4" and "x = status (fetchTests (results st') ! k)"
      using len' by (auto simp: in_set_conv_nth)
    then show "x \<in> ?S" using one' by blast
  qed
  from run ssr run' isr show ?thesis by blast
qed

text \<open>
  On a network where one call fails, and on one that answers 500.
\<close>

theorem status_enumeration_witness:
  "(\<exists>res st. getSSRData example_ambient example_platform net_flaky = (Inr res, st)
      \<and> set (map status (fetchTests res)) \<subseteq>
          {''SUCCESS'', ''HTTP_ERROR'', ''NETWORK_ERROR'', ''EXPECTED_ERROR'', ''UNEXPECTED_SUCCESS''})
   \<and> (\<exists>res st. getISRData example_buildTime example_platform net_500 = (Inr res, st)
      \<and> set (map status (fetchTests res)) \<subseteq>
          {''SUCCESS'', ''HTTP_ERROR'', ''NETWORK_ERROR'', ''EXPECTED_ERROR'', ''UNEXPECTED_SUCCESS''})"
  using status_enumeration [of example_ambient example_platform net_flaky
      example_buildTime example_platform net_500] .

text \<open>
  C8. Whatever the network answers, a data function sends exactly its four requests, in
  source order, to the four fixed addresses of its page.
\<close>

theorem four_requests_in_order:
  "(\<exists>res st. getSSRData amb pf net = (Inr res, st)
      \<and> sent st = [ssr_request1, ssr_request2, ssr_request3, ssr_request4 amb pf]
      \<and> map req_url (sent st) =
          [''https://httpbin.org/json'', ''https://httpbin.org/delay/2'',
           ''https://non-existent-domain-12345.com/api/test'', ''https://httpbin.org/post''])
   \<and> (\<exists>res st. getISRData bt pf' net' = (Inr res, st)
      \<and> sent st = [isr_request1, isr_request2, isr_request3, isr_request4]
      \<and> map req_url (sent st) =
          [''https://httpbin.org/uuid'', ''https://httpbin.org/ip'',
           ''https://httpbin.org/delay/1'', ''https://httpbin.org/status/500''])"
proof (rule conjI)
  obtain ss st where run: "getSSRData amb pf net = (Inr (results st), st)"
    and snt: "sent st = ssr_requests amb pf"
    using getSSRData_nth by blast
  show "\<exists>res st. getSSRData amb pf net = (Inr res, st)
      \<and> sent st = [ssr_request1, ssr_request2, ssr_request3, ssr_request4 amb pf]
      \<and> map req_url (sent st) =
          [''https://httpbin.org/json'', ''https://httpbin.org/delay/2'',
           ''https://non-existent-domain-12345.com/api/test'', ''https://httpbin.org/post'']"
    by (rule exI [of _ "results st"], rule exI [of _ st])
       (simp add: run snt ssr_requests_def ssr_request1_def ssr_request2_def ssr_request3_def
         ssr_request4_def)
next
  obtain ss st where run: "getISRData bt pf' net' = (Inr (results st), st)"
    and snt: "sent st = isr_requests"
    using getISRData_nth by blast
  show "\<exists>res st. getISRData bt pf' net' = (Inr res, st)
      \<and> sent st = [isr_request1, isr_request2, isr_request3, isr_request4]
      \<and> map req_url (sent st) =
          [''https://httpbin.org/uuid'', ''https://httpbin.org/ip'',
           ''https://httpbin.org/delay/1'', ''https://httpbin.org/status/500'']"
    by (rule exI [of _ "results st"], rule exI [of _ st])
       (simp add: run snt isr_requests_def isr_request1_def isr_request2_def isr_request3_def
         isr_request4_def)
qed

text \<open>
  On a network where every \<^verbatim>\<open>fetch\<close> throws, and on one that answers 200.
\<close>

theorem four_requests_in_order_witness:
  "(\<exists>res st. getSSRData example_ambient example_platform net_down = (Inr res, st)
      \<and> sent st = [ssr_request1, ssr_request2, ssr_request3,
            ssr_request4 example_ambient example_platform]
      \<and> map req_url (sent st) =
          [''https://httpbin.org/json'', ''https://httpbin.org/delay/2'',
           ''https://non-existent-domain-12345.com/api/test'', ''https://httpbin.org/post''])
   \<and> (\<exists>res st. getISRData example_buildTime example_platform net_up = (Inr res, st)
      \<and> sent st = [isr_request1, isr_request2, isr_request3, isr_request4]
      \<and> map req_url (sent st) =
          [''https://httpbin.org/uuid'', ''https://httpbin.org/ip'',
           ''https://httpbin.org/delay/1'', ''https://httpbin.org/status/500''])"
  using four_requests_in_order [of example_ambient example_platform net_down
      example_buildTime example_platform net_up] .

text \<open>
  C9. A record with status \<^verbatim>\<open>SUCCESS\<close> was built from a response of the network to the
  call at its position; its \<^verbatim>\<open>proxyUsed\<close> field is the \<^verbatim>\<open>oe-proxy-used\<close> header of that
  response when the header is present and not empty, and otherwise the fixed fallback of
  the call: \<^verbatim>\<open>likely_proxy\<close> for the timeout test of the SSR page and the slow endpoint of
  the ISR page, \<^verbatim>\<open>unknown\<close> for the others.
\<close>

theorem success_record_proxyUsed:
  "(i < 4 \<longrightarrow> (\<exists>res st. getSSRData amb pf net = (Inr res, st)
      \<and> (status (fetchTests res ! i) = ''SUCCESS'' \<longrightarrow>
          (\<exists>response. net (ssr_requests amb pf ! i) = Inr response
            \<and> (\<forall>h. resp_oe_proxy_used response = Some h \<and> h \<noteq> []
                  \<longrightarrow> proxyUsed (fetchTests res ! i) = Some h)
            \<and> (resp_oe_proxy_used response = None \<or> resp_oe_proxy_used response = Some []
                  \<longrightarrow> proxyUsed (fetchTests res ! i) =
                        Some (if i = 1 then ''likely_proxy'' else ''unknown''))))))
   \<and> (j < 4 \<longrightarrow> (\<exists>res st. getISRData bt pf' net' = (Inr res, st)
      \<and> (status (fetchTests res ! j) = ''SUCCESS'' \<longrightarrow>
          (\<exists>response. net' (isr_requests ! j) = Inr response
            \<and> (\<forall>h. resp_oe_proxy_used response = Some h \<and> h \<noteq> []
                  \<longrightarrow> proxyUsed (fetchTests res ! j) = Some h)
            \<and> (resp_oe_proxy_used response = None \<or> resp_oe_proxy_used response = Some []
                  \<longrightarrow> proxyUsed (fetchTests res ! j) =
                        Some (if j = 2 then ''likely_proxy'' else ''unknown''))))))"
proof (intro conjI impI)
  assume i: "i < 4"
  obtain ss st where run: "getSSRData amb pf net = (Inr (results st), st)"
    and nth: "\<forall>k<4. fetchTests (results st) ! k = appended (ssr_tests amb pf net ! k) (ss ! k)"
    using getSSRData_nth by blast
  from i nth have eq: "fetchTests (results st) ! i = appended (ssr_tests amb pf net ! i) (ss ! i)"
    by blast
  have "status (fetchTests (results st) ! i) = ''SUCCESS'' \<longrightarrow>
          (\<exists>response. net (ssr_requests amb pf ! i) = Inr response
            \<and> (\<forall>h. resp_oe_proxy_used response = Some h \<and> h \<noteq> []
                  \<longrightarrow> proxyUsed (fetchTests (results st) ! i) = Some h)
            \<and> (resp_oe_proxy_used response = None \<or> resp_oe_proxy_used response = Some []
                  \<longrightarrow> proxyUsed (fetchTests (results st) ! i) =
                        Some (if i = 1 then ''likely_proxy'' else ''unknown'')))"
  proof
    assume "status (fetchTests (results st) ! i) = ''SUCCESS''"
    then obtain response where r: "net (ssr_requests amb pf ! i) = Inr response"
      and p: "proxyUsed (fetchTests (results st) ! i) =
        Some (or_str (resp_oe_proxy_used response) (if i = 1 then ''likely_proxy'' else ''unknown''))"
      using ssr_success_record [OF i, of amb pf net "ss ! i"] unfolding eq by blast
    show "\<exists>response. net (ssr_requests amb pf ! i) = Inr response
            \<and> (\<forall>h. resp_oe_proxy_used response = Some h \<and> h \<noteq> []
                  \<longrightarrow> proxyUsed (fetchTests (results st) ! i) = Some h)
            \<and> (resp_oe_proxy_used response = None \<or> resp_oe_proxy_used response = Some []
                  \<longrightarrow> proxyUsed (fetchTests (results st) ! i) =
                        Some (if i = 1 then ''likely_proxy'' else ''unknown''))"
      unfolding p using r by (intro exI [of _ response] conjI) (auto simp: or_str_def)
  qed
  with run show "\<exists>res st. getSSRData amb pf net = (Inr res, st)
      \<and> (status (fetchTests res ! i) = ''SUCCESS'' \<longrightarrow>
          (\<exists>response. net (ssr_requests amb pf ! i) = Inr response
            \<and> (\<forall>h. resp_oe_proxy_used response = Some h \<and> h \<noteq> []
                  \<longrightarrow> proxyUsed (fetchTests res ! i) = Some h)
            \<and> (resp_oe_proxy_used response = None \<or> resp_oe_proxy_used response = Some []
                  \<longrightarrow> proxyUsed (fetchTests res ! i) =
                        Some (if i = 1 then ''likely_proxy'' else ''unknown''))))"
    by (intro exI [of _ "results st"] exI [of _ st] conjI)
next
  assume j: "j < 4"
  obtain ss st where run: "getISRData bt pf' net' = (Inr (results st), st)"
    and nth: "\<forall>k<4. fetchTests (results st) ! k = appended (isr_tests pf' net' ! k) (ss ! k)"
    using getISRData_nth by blast
  from j nth have eq: "fetchTests (results st) ! j = appended (isr_tests pf' net' ! j) (ss ! j)"
    by blast
  have "status (fetchTests (results st) ! j) = ''SUCCESS'' \<longrightarrow>
          (\<exists>response. net' (isr_requests ! j) = Inr response
            \<and> (\<forall>h. resp_oe_proxy_used response = Some h \<and> h \<noteq> []
                  \<longrightarrow> proxyUsed (fetchTests (results st) ! j) = Some h)
            \<and> (resp_oe_proxy_used response = None \<or> resp_oe_proxy_used response = Some []
                  \<longrightarrow> proxyUsed (fetchTests (results st) ! j) =
                        Some (if j = 2 then ''likely_proxy'' else ''unknown'')))"
  proof
    assume "status (fetchTests (results st) ! j) = ''SUCCESS''"
    then obtain response where r: "net' (isr_requests ! j) = Inr response"
      and p: "proxyUsed (fetchTests (results st) ! j) =
        Some (or_str (resp_oe_proxy_used response) (if j = 2 then ''likely_proxy'' else ''unknown''))"
      using isr_success_record [OF j, of pf' net' "ss ! j"] unfolding eq by blast
    show "\<exists>response. net' (isr_requests ! j) = Inr response
            \<and> (\<forall>h. resp_oe_proxy_used response = Some h \<and> h \<noteq> []
                  \<longrightarrow> proxyUsed (fetchTests (results st) ! j) = Some h)
            \<and> (resp_oe_proxy_used response = None \<or> resp_oe_proxy_used response = Some []
                  \<longrightarrow> proxyUsed (fetchTests (results st) ! j) =
                        Some (if j = 2 then ''likely_proxy'' else ''unknown''))"
      unfolding p using r by (intro exI [of _ response] conjI) (auto simp: or_str_def)
  qed
  with run show "\<exists>res st. getISRData bt pf' net' = (Inr res, st)
      \<and> (status (fetchTests res ! j) = ''SUCCESS'' \<longrightarrow>
          (\<exists>response. net' (isr_requests ! j) = Inr response
            \<and> (\<forall>h. resp_oe_proxy_used response = Some h \<and> h \<noteq> []
                  \<longrightarrow> proxyUsed (fetchTests res ! j) = Some h)
            \<and> (resp_oe_proxy_used response = None \<or> resp_oe_proxy_used response = Some []
                  \<longrightarrow> proxyUsed (fetchTests res ! j) =
                        Some (if j = 2 then ''likely_proxy'' else ''unknown''))))"
    by (intro exI [of _ "results st"] exI [of _ st] conjI)
qed

text \<open>
  The first call of the SSR page on a network whose responses carry the header, and the
  slow endpoint of the ISR page on one whose responses do not.
\<close>

theorem success_record_proxyUsed_witness:
  "(\<exists>res st. getSSRData example_ambient example_platform net_proxied = (Inr res, st)
      \<and> status (fetchTests res ! 0) = ''SUCCESS''
      \<and> net_proxied (ssr_requests example_ambient example_platform ! 0) = Inr response_proxied
      \<and> resp_oe_proxy_used response_proxied = Some ''true''
      \<and> proxyUsed (fetchTests res ! 0) = Some ''true'')
   \<and> (\<exists>res st. getISRData example_buildTime example_platform net_up = (Inr res, st)
      \<and> status (fetchTests res ! 2) = ''SUCCESS''
      \<and> net_up (isr_requests ! 2) = Inr response_200
      \<and> resp_oe_proxy_used response_200 = None
      \<and> proxyUsed (fetchTests res ! 2) = Some ''likely_proxy'')"
proof (rule conjI)
  have ev: "map_option (map status \<circ> fetchTests)
        (returned (getSSRData example_ambient example_platform net_proxied)) =
      Some [''SUCCESS'', ''SUCCESS'', ''UNEXPECTED_SUCCESS'', ''SUCCESS'']"
    by (simp add: run_defs net_proxied_def response_proxied_def example_body_def
        example_platform_def)
  have net: "net_proxied (ssr_requests example_ambient example_platform ! 0) = Inr response_proxied"
    and hdr: "resp_oe_proxy_used response_proxied = Some ''true''"
    by (simp_all add: net_proxied_def response_proxied_def)
  have "(0::nat) < 4" by simp
  from mp [OF conjunct1 [OF success_record_proxyUsed
        [of 0 example_ambient example_platform net_proxied]] this]
  obtain res st where run: "getSSRData example_ambient example_platform net_proxied = (Inr res, st)"
    and imp: "status (fetchTests res ! 0) = ''SUCCESS'' \<longrightarrow>
          (\<exists>response. net_proxied (ssr_requests example_ambient example_platform ! 0) = Inr response
            \<and> (\<forall>h. resp_oe_proxy_used response = Some h \<and> h \<noteq> []
                  \<longrightarrow> proxyUsed (fetchTests res ! 0) = Some h)
            \<and> (resp_oe_proxy_used response = None \<or> resp_oe_proxy_used response = Some []
                  \<longrightarrow> proxyUsed (fetchTests res ! 0) =
                        Some (if (0::nat) = 1 then ''likely_proxy'' else ''unknown'')))"
    by blast
  from ev run have "map status (fetchTests res) =
      [''SUCCESS'', ''SUCCESS'', ''UNEXPECTED_SUCCESS'', ''SUCCESS'']"
    by (simp add: returned_def)
  then have suc: "status (fetchTests res ! 0) = ''SUCCESS''"
    by (auto simp: map_eq_Cons_conv)
  with imp net hdr have "proxyUsed (fetchTests res ! 0) = Some ''true''"
    by auto
  with run suc net hdr
  show "\<exists>res st. getSSRData example_ambient example_platform net_proxied = (Inr res, st)
      \<and> status (fetchTests res ! 0) = ''SUCCESS''
      \<and> net_proxied (ssr_requests example_ambient example_platform ! 0) = Inr response_proxied
      \<and> resp_oe_proxy_used response_proxied = Some ''true''
      \<and> proxyUsed (fetchTests res ! 0) = Some ''true''"
    by (intro exI [of _ res] exI [of _ st] conjI)
next
  have ev: "map_option (map status \<circ> fetchTests)
        (returned (getISRData example_buildTime example_platform net_up)) =
      Some [''SUCCESS'', ''SUCCESS'', ''SUCCESS'', ''HTTP_ERROR'']"
    by (simp add: run_defs net_up_def response_200_def example_body_def example_platform_def)
  have net: "net_up (isr_requests ! 2) = Inr response_200"
    and hdr: "resp_oe_proxy_used response_200 = None"
    by (simp_all add: net_up_def response_200_def)
  have "(2::nat) < 4" by simp
  from mp [OF conjunct2 [OF success_record_proxyUsed
        [of _ _ _ _ 2 example_buildTime example_platform net_up]] this]
  obtain res st where run: "getISRData example_buildTime example_platform net_up = (Inr res, st)"
    and imp: "status (fetchTests res ! 2) = ''SUCCESS'' \<longrightarrow>
          (\<exists>response. net_up (isr_requests ! 2) = Inr response
            \<and> (\<forall>h. resp_oe_proxy_used response = Some h \<and> h \<noteq> []
                  \<longrightarrow> proxyUsed (fetchTests res ! 2) = Some h)
            \<and> (resp_oe_proxy_used response = None \<or> resp_oe_proxy_used response = Some []
                  \<longrightarrow> proxyUsed (fetchTests res ! 2) =
                        Some (if (2::nat) = 2 then ''likely_proxy'' else ''unknown'')))"
    by blast
  from ev run have "map status (fetchTests res) =
      [''SUCCESS'', ''SUCCESS'', ''SUCCESS'', ''HTTP_ERROR'']"
    by (simp add: returned_def)
  then have suc: "status (fetchTests res ! 2) = ''SUCCESS''"
    by (auto simp: map_eq_Cons_conv)
  with imp net hdr have "proxyUsed (fetchTests res ! 2) = Some ''likely_proxy''"
    by auto
  with run suc net hdr
  show "\<exists>res st. getISRData example_buildTime example_platform net_up = (Inr res, st)
      \<and> status (fetchTests res ! 2) = ''SUCCESS''
      \<and> net_up (isr_requests ! 2) = Inr response_200
      \<and> resp_oe_proxy_used response_200 = None
      \<and> proxyUsed (fetchTests res ! 2) = Some ''likely_proxy''"
    by (intro exI [of _ res] exI [of _ st] conjI)
qed

text \<open>
  C10. When the try block of a call throws, the record at its position has status
  \<^verbatim>\<open>NETWORK_ERROR\<close> or \<^verbatim>\<open>EXPECTED_ERROR\<close> and neither a \<^verbatim>\<open>statusCode\<close> nor a \<^verbatim>\<open>data\<close>
  field; a record with one of these two statuses has neither field; and a record that
  has one of the two fields comes from a try block that completed on a response of the
  network.
\<close>

theorem catch_record_fields:
  "(i < 4 \<longrightarrow> (\<exists>res st. getSSRData amb pf net = (Inr res, st)
      \<and> ((\<exists>e. fst ((ssr_tries amb pf net ! i) s) = Inl e) \<longrightarrow>
            status (fetchTests res ! i) \<in> {''NETWORK_ERROR'', ''EXPECTED_ERROR''}
            \<and> statusCode (fetchTests res ! i) = None
            \<and> data (fetchTests res ! i) = None)
      \<and> (status (fetchTests res ! i) \<in> {''NETWORK_ERROR'', ''EXPECTED_ERROR''} \<longrightarrow>
            statusCode (fetchTests res ! i) = None
            \<and> data (fetchTests res ! i) = None)
      \<and> (statusCode (fetchTests res ! i) \<noteq> None \<or> data (fetchTests res ! i) \<noteq> None \<longrightarrow>
            fst ((ssr_tries amb pf net ! i) s) = Inr ()
            \<and> (\<exists>response. net (ssr_requests amb pf ! i) = Inr response))))
   \<and> (j < 4 \<longrightarrow> (\<exists>res st. getISRData bt pf' net' = (Inr res, st)
      \<and> ((\<exists>e. fst ((isr_tries pf' net' ! j) s') = Inl e) \<longrightarrow>
            status (fetchTests res ! j) \<in> {''NETWORK_ERROR'', ''EXPECTED_ERROR''}
            \<and> statusCode (fetchTests res ! j) = None
            \<and> data (fetchTests res ! j) = None)
      \<and> (status (fetchTests res ! j) \<in> {''NETWORK_ERROR'', ''EXPECTED_ERROR''} \<longrightarrow>
            statusCode (fetchTests res ! j) = None
            \<and> data (fetchTests res ! j) = None)
      \<and> (statusCode (fetchTests res ! j) \<noteq> None \<or> data (fetchTests res ! j) \<noteq> None \<longrightarrow>
            fst ((isr_tries pf' net' ! j) s') = Inr ()
            \<and> (\<exists>response. net' (isr_requests ! j) = Inr response))))"
proof (intro conjI impI)
  assume i: "i < 4"
  obtain ss st where run: "getSSRData amb pf net = (Inr (results st), st)"
    and nth: "\<forall>k<4. fetchTests (results st) ! k = appended (ssr_tests amb pf net ! k) (ss ! k)"
    using getSSRData_nth by blast
  from i nth have eq: "fetchTests (results st) ! i = appended (ssr_tests amb pf net ! i) (ss ! i)"
    by blast
  show "\<exists>res st. getSSRData amb pf net = (Inr res, st)
      \<and> ((\<exists>e. fst ((ssr_tries amb pf net ! i) s) = Inl e) \<longrightarrow>
            status (fetchTests res ! i) \<in> {''NETWORK_ERROR'', ''EXPECTED_ERROR''}
            \<and> statusCode (fetchTests res ! i) = None
            \<and> data (fetchTests res ! i) = None)
      \<and> (status (fetchTests res ! i) \<in> {''NETWORK_ERROR'', ''EXPECTED_ERROR''} \<longrightarrow>
            statusCode (fetchTests res ! i) = None
            \<and> data (fetchTests res ! i) = None)
      \<and> (statusCode (fetchTests res ! i) \<noteq> None \<or> data (fetchTests res ! i) \<noteq> None \<longrightarrow>
            fst ((ssr_tries amb pf net ! i) s) = Inr ()
            \<and> (\<exists>response. net (ssr_requests amb pf ! i) = Inr response))"
    using ssr_fields_by_outcome [OF i, of amb pf net s "ss ! i"] run
    unfolding eq [symmetric]
    by (intro exI [of _ "results st"] exI [of _ st]) (rule conjI)
next
  assume j: "j < 4"
  obtain ss st where run: "getISRData bt pf' net' = (Inr (results st), st)"
    and nth: "\<forall>k<4. fetchTests (results st) ! k = appended (isr_tests pf' net' ! k) (ss ! k)"
    using getISRData_nth by blast
  from j nth have eq: "fetchTests (results st) ! j = appended (isr_tests pf' net' ! j) (ss ! j)"
    by blast
  show "\<exists>res st. getISRData bt pf' net' = (Inr res, st)
      \<and> ((\<exists>e. fst ((isr_tries pf' net' ! j) s') = Inl e) \<longrightarrow>
            status (fetchTests res ! j) \<in> {''NETWORK_ERROR'', ''EXPECTED_ERROR''}
            \<and> statusCode (fetchTests res ! j) = None
            \<and> data (fetchTests res ! j) = None)
      \<and> (status (fetchTests res ! j) \<in> {''NETWORK_ERROR'', ''EXPECTED_ERROR''} \<longrightarrow>
            statusCode (fetchTests res ! j) = None
            \<and> data (fetchTests res ! j) = None)
      \<and> (statusCode (fetchTests res ! j) \<noteq> None \<or> data (fetchTests res ! j) \<noteq> None \<longrightarrow>
            fst ((isr_tries pf' net' ! j) s') = Inr ()
            \<and> (\<exists>response. net' (isr_requests ! j) = Inr response))"
    using isr_fields_by_outcome [OF j, of pf' net' s' "ss ! j"] run
    unfolding eq [symmetric]
    by (intro exI [of _ "results st"] exI [of _ st]) (rule conjI)
qed

text \<open>
  On the network where the first call of each page fails: the first record of the SSR
  page, and the second record of the ISR page.
\<close>

theorem catch_record_fields_witness:
  "(\<exists>res st. getSSRData example_ambient example_platform net_flaky = (Inr res, st)
      \<and> fst ((ssr_tries example_ambient example_platform net_flaky ! 0)
            (ssr_initial example_ambient)) = Inl (ErrorInstance ''fetch failed'')
      \<and> status (fetchTests res ! 0) \<in> {''NETWORK_ERROR'', ''EXPECTED_ERROR''}
      \<and> statusCode (fetchTests res ! 0) = None
      \<and> data (fetchTests res ! 0) = None)
   \<and> (\<exists>res st. getISRData example_buildTime example_platform net_flaky = (Inr res, st)
      \<and> statusCode (fetchTests res ! 1) = Some 200
      \<and> fst ((isr_tries example_platform net_flaky ! 1) (isr_initial example_buildTime)) = Inr ()
      \<and> (\<exists>response. net_flaky (isr_requests ! 1) = Inr response))"
proof (rule conjI)
  have t: "fst ((ssr_tries example_ambient example_platform net_flaky ! 0)
            (ssr_initial example_ambient)) = Inl (ErrorInstance ''fetch failed'')"
    by (simp add: ssr_tries_def ssr_try1_def ssr_request1_def monad_defs net_flaky_def)
  have "(0::nat) < 4" by simp
  from mp [OF conjunct1 [OF catch_record_fields
        [of 0 example_ambient example_platform net_flaky "ssr_initial example_ambient"]] this]
  obtain res st where run: "getSSRData example_ambient example_platform net_flaky = (Inr res, st)"
    and imp: "(\<exists>e. fst ((ssr_tries example_ambient example_platform net_flaky ! 0)
            (ssr_initial example_ambient)) = Inl e) \<longrightarrow>
            status (fetchTests res ! 0) \<in> {''NETWORK_ERROR'', ''EXPECTED_ERROR''}
            \<and> statusCode (fetchTests res ! 0) = None
            \<and> data (fetchTests res ! 0) = None"
    by blast
  from t imp have "status (fetchTests res ! 0) \<in> {''NETWORK_ERROR'', ''EXPECTED_ERROR''}
            \<and> statusCode (fetchTests res ! 0) = None
            \<and> data (fetchTests res ! 0) = None"
    by blast
  with run t
  show "\<exists>res st. getSSRData example_ambient example_platform net_flaky = (Inr res, st)
      \<and> fst ((ssr_tries example_ambient example_platform net_flaky ! 0)
            (ssr_initial example_ambient)) = Inl (ErrorInstance ''fetch failed'')
      \<and> status (fetchTests res ! 0) \<in> {''NETWORK_ERROR'', ''EXPECTED_ERROR''}
      \<and> statusCode (fetchTests res ! 0) = None
      \<and> data (fetchTests res ! 0) = None"
    by (intro exI [of _ res] exI [of _ st]) simp
next
  have ev: "map_option (map statusCode \<circ> fetchTests)
        (returned (getISRData example_buildTime example_platform net_flaky)) =
      Some [None, Some 200, Some 200, Some 200]"
    by (simp add: run_defs isr_request1_def isr_request2_def isr_request3_def isr_request4_def
        net_flaky_def response_200_def example_body_def example_platform_def)
  have "(1::nat) < 4" by simp
  from mp [OF conjunct2 [OF catch_record_fields
        [of _ _ _ _ _ 1 example_buildTime example_platform net_flaky
          "isr_initial example_buildTime"]] this]
  obtain res st where run: "getISRData example_buildTime example_platform net_flaky = (Inr res, st)"
    and imp: "statusCode (fetchTests res ! 1) \<noteq> None \<or> data (fetchTests res ! 1) \<noteq> None \<longrightarrow>
            fst ((isr_tries example_platform net_flaky ! 1) (isr_initial example_buildTime)) = Inr ()
            \<and> (\<exists>response. net_flaky (isr_requests ! 1) = Inr response)"
    by blast
  from ev run have "map statusCode (fetchTests res) = [None, Some 200, Some 200, Some 200]"
    by (simp add: returned_def)
  then have code: "statusCode (fetchTests res ! 1) = Some 200"
    by (auto simp: map_eq_Cons_conv)
  with imp have "fst ((isr_tries example_platform net_flaky ! 1) (isr_initial example_buildTime)) = Inr ()
            \<and> (\<exists>response. net_flaky (isr_requests ! 1) = Inr response)"
    by simp
  with run code
  show "\<exists>res st. getISRData example_buildTime example_platform net_flaky = (Inr res, st)
      \<and> statusCode (fetchTests res ! 1) = Some 200
      \<and> fst ((isr_tries example_platform net_flaky ! 1) (isr_initial example_buildTime)) = Inr ()
      \<and> (\<exists>response. net_flaky (isr_requests ! 1) = Inr response)"
    by (intro exI [of _ res] exI [of _ st]) simp
qed

end
